theory Spec2Isabelle
  imports Main "HOL-Library.Sublist"
begin

section \<open>Text\<close>

text \<open>
  JavaScript strings are modelled as \<^typ>\<open>string\<close>, one \<^typ>\<open>char\<close> per code unit
  below 256. Template literals become concatenations.
\<close>

abbreviation nl :: string where
  "nl \<equiv> [CHR 0x0A]"

definition digit_char :: "nat \<Rightarrow> char" where
  "digit_char d = ''0123456789'' ! d"

text \<open>Number-to-string conversion of a non-negative integer, as a template literal does it.\<close>

fun show_nat :: "nat \<Rightarrow> string" where
  "show_nat n = (if n < 10 then [digit_char n] else show_nat (n div 10) @ [digit_char (n mod 10)])"

declare show_nat.simps [simp del]

text \<open>
  \<open>String.prototype.trim\<close>: the white space and line terminators of ECMAScript that lie
  below 256 (TAB, LF, VT, FF, CR, SP, NBSP) are removed from both ends.
\<close>

definition js_whitespace :: "char \<Rightarrow> bool" where
  "js_whitespace c =
     (c = CHR 0x09 \<or> c = CHR 0x0A \<or> c = CHR 0x0B \<or> c = CHR 0x0C \<or> c = CHR 0x0D \<or>
      c = CHR 0x20 \<or> c = CHR 0xA0)"

definition trim :: "string \<Rightarrow> string" where
  "trim s = rev (dropWhile js_whitespace (rev (dropWhile js_whitespace s)))"

text \<open>\<open>Array.prototype.slice(-k)\<close>: the last \<open>k\<close> elements, all of them when there are fewer.\<close>

definition slice_from_end :: "nat \<Rightarrow> 'a list \<Rightarrow> 'a list" where
  "slice_from_end k xs = drop (length xs - k) xs"

text \<open>\<open>String.prototype.split('\n')\<close>: always at least one piece.\<close>

fun split_nl :: "string \<Rightarrow> string list" where
  "split_nl [] = [[]]"
| "split_nl (c # cs) =
     (if c = CHR 0x0A then [] # split_nl cs
      else (case split_nl cs of
              [] \<Rightarrow> [[c]]
            | piece # pieces \<Rightarrow> (c # piece) # pieces))"


section \<open>Rows of the two tables (supabase.ts)\<close>

text \<open>
  Identifiers are natural numbers standing for the generated UUIDs, timestamps are
  readings of a clock. Field names carry a prefix, since \<open>id\<close>, \<open>key\<close> and \<open>value\<close> are
  already taken.
\<close>

record Conversation =
  c_id :: nat
  c_user_id :: string
  c_message :: string
  c_response :: string
  c_created_at :: nat
  c_metadata :: "(string \<times> string) list"

record Memory =
  m_id :: nat
  m_user_id :: string
  m_key :: string
  m_value :: string
  m_created_at :: nat
  m_updated_at :: nat


section \<open>Persona (persona.ts)\<close>

definition systemPrompt :: string where
  "systemPrompt =
     ''You are Hue, a helpful AI assistant with persistent memory. You have the ability to remember past conversations and interactions with users.'' @ nl @
     nl @
     ''Key traits:'' @ nl @
     ''- Friendly and conversational'' @ nl @
     ''- Remembers context from previous conversations'' @ nl @
     ''- Provides helpful, accurate information'' @ nl @
     ''- Maintains a consistent personality'' @ nl @
     ''- Uses memory to provide more personalized responses'' @ nl @
     nl @
     ''When responding:'' @ nl @
     ''- Reference past conversations when relevant'' @ nl @
     ''- Build on previous context'' @ nl @
     ''- Be warm and engaging'' @ nl @
     ''- Provide thoughtful, well-reasoned answers'' @ nl @
     ''- Ask clarifying questions when needed'' @ nl @
     nl @
     ''You have access to conversation history and can recall previous interactions to provide more contextual and personalized responses.''"

definition modelError :: string where
  "modelError = ''I'' @ [CHR 0x27] @ ''m experiencing some technical difficulties. Please try again in a moment.''"

definition history_header :: string where
  "history_header = nl @ nl @ ''Recent conversation history:'' @ nl"

definition memories_header :: string where
  "memories_header = nl @ nl @ ''User preferences and memories:'' @ nl"

text \<open>The two lines one \<open>forEach\<close> step appends for a conversation at position \<open>index\<close>.\<close>

definition render_conversation :: "nat \<Rightarrow> Conversation \<Rightarrow> string" where
  "render_conversation index conv =
     show_nat (index + 1) @ ''. User: '' @ c_message conv @ nl @
     ''   Hue: '' @ c_response conv @ nl"

text \<open>The line one \<open>forEach\<close> step appends for a memory.\<close>

definition render_memory :: "Memory \<Rightarrow> string" where
  "render_memory memory = ''- '' @ m_key memory @ '': '' @ m_value memory @ nl"

definition buildMemoryContext :: "string \<Rightarrow> Conversation list \<Rightarrow> Memory list \<Rightarrow> string" where
  "buildMemoryContext userId recentConversations userMemories =
     (let context0 = [];
          context1 =
            (if length recentConversations > 0
             then foldl (\<lambda>context (index, conv). context @ render_conversation index conv)
                    (context0 @ history_header)
                    (enumerate 0 (slice_from_end 5 recentConversations))
             else context0);
          context2 =
            (if length userMemories > 0
             then foldl (\<lambda>context memory. context @ render_memory memory)
                    (context1 @ memories_header)
                    userMemories
             else context1)
      in context2)"

definition formatResponse :: "string \<Rightarrow> bool \<Rightarrow> string" where
  "formatResponse response includePersonality =
     (if \<not> includePersonality then response else trim response)"


section \<open>Requests to the two services\<close>

text \<open>Requests sent to the two services, as the code issues them.\<close>

datatype call =
    GetTags
  | PostGenerate string bool
  | SelectConversations string nat
  | InsertConversation string string string
  | SelectMemories string
  | UpsertMemory string string string

fun store_call :: "call \<Rightarrow> bool" where
  "store_call (SelectConversations _ _) = True"
| "store_call (InsertConversation _ _ _) = True"
| "store_call (SelectMemories _) = True"
| "store_call (UpsertMemory _ _ _) = True"
| "store_call _ = False"

fun backend_call :: "call \<Rightarrow> bool" where
  "backend_call GetTags = True"
| "backend_call (PostGenerate _ _) = True"
| "backend_call _ = False"


section \<open>The store (supabase.ts, memory.ts)\<close>

text \<open>
  The hosted database, as the code sees it through the query builder: the two tables, both
  created by \<open>initializeDatabase\<close>, and which requests it answers. A request the store does
  not answer ends in an error; \<open>memory.ts\<close> handles an \<open>error\<close> field and a thrown exception
  alike, so the one predicate stands for both.
\<close>

record database =
  conversations :: "Conversation list"
  memories :: "Memory list"
  answers :: "call \<Rightarrow> bool"
  next_id :: nat

text \<open>A query gives \<open>{data, error}\<close>: \<open>Inl\<close> is the error, \<open>Inr\<close> the data.\<close>

type_synonym 'a query_result = "string + 'a"

definition store_unreachable :: string where
  "store_unreachable = ''the store did not answer''"

definition unique_violation :: string where
  "unique_violation = ''duplicate key value violates unique constraint''"

text \<open>\<open>from('conversations').select('*').eq('user_id', userId).order('created_at', {ascending: false}).limit(limit)\<close>\<close>

definition select_conversations :: "string \<Rightarrow> nat \<Rightarrow> database \<Rightarrow> Conversation list query_result" where
  "select_conversations userId limit d =
     (if \<not> answers d (SelectConversations userId limit) then Inl store_unreachable
      else Inr (take limit (rev (sort_key c_created_at
                  (filter (\<lambda>c. c_user_id c = userId) (conversations d))))))"

text \<open>
  \<open>from('conversations').insert({user_id, message, response, metadata}).select().single()\<close>;
  \<open>id\<close> and \<open>created_at\<close> take their column defaults.
\<close>

definition insert_conversation ::
  "string \<Rightarrow> string \<Rightarrow> string \<Rightarrow> (string \<times> string) list \<Rightarrow> nat \<Rightarrow> database
     \<Rightarrow> Conversation query_result \<times> database" where
  "insert_conversation userId message response metadata now d =
     (if \<not> answers d (InsertConversation userId message response)
      then (Inl store_unreachable, d)
      else
        (let row = \<lparr>c_id = next_id d, c_user_id = userId, c_message = message,
                     c_response = response, c_created_at = now, c_metadata = metadata\<rparr>
         in (Inr row, d\<lparr>conversations := conversations d @ [row], next_id := next_id d + 1\<rparr>)))"

text \<open>\<open>from('memories').select('*').eq('user_id', userId).order('updated_at', {ascending: false})\<close>\<close>

definition select_memories :: "string \<Rightarrow> database \<Rightarrow> Memory list query_result" where
  "select_memories userId d =
     (if \<not> answers d (SelectMemories userId) then Inl store_unreachable
      else Inr (rev (sort_key m_updated_at (filter (\<lambda>m. m_user_id m = userId) (memories d)))))"

text \<open>
  \<open>from('memories').upsert(row, {onConflict})\<close> is an
  \<open>INSERT ... ON CONFLICT (target) DO UPDATE\<close> of the columns the row gives. The target is
  the \<open>onConflict\<close> option when the call passes one, and the primary key otherwise (the
  client library's documentation: primary keys must be included in the values to use
  upsert; \<open>onConflict\<close> names the unique columns that decide which rows are duplicates).
  The table of \<open>initializeDatabase\<close> has the generated \<open>id\<close> as its primary key and
  \<open>UNIQUE(user_id, key)\<close> as a second constraint, which every inserted or updated row must
  keep whatever the target is. A row given without \<open>id\<close> takes the column default, a
  fresh identifier.
\<close>

datatype conflict_target = PrimaryKey | UserIdAndKey

definition same_user_key :: "string \<Rightarrow> string \<Rightarrow> Memory \<Rightarrow> bool" where
  "same_user_key userId key m = (m_user_id m = userId \<and> m_key m = key)"

definition upsert_memory ::
  "conflict_target \<Rightarrow> string \<Rightarrow> string \<Rightarrow> string \<Rightarrow> nat \<Rightarrow> nat \<Rightarrow> database
     \<Rightarrow> Memory query_result \<times> database" where
  "upsert_memory target userId key val updated_at now d =
     (if \<not> answers d (UpsertMemory userId key val) then (Inl store_unreachable, d)
      else
        (let proposed = \<lparr>m_id = next_id d, m_user_id = userId, m_key = key, m_value = val,
                          m_created_at = now, m_updated_at = updated_at\<rparr>;
             arbiter = (case target of
                          PrimaryKey \<Rightarrow> (\<lambda>m. m_id m = m_id proposed)
                        | UserIdAndKey \<Rightarrow> same_user_key userId key)
         in case find arbiter (memories d) of
              None \<Rightarrow>
                (if list_ex (same_user_key userId key) (memories d)
                 then (Inl unique_violation, d)
                 else (Inr proposed,
                       d\<lparr>memories := memories d @ [proposed], next_id := next_id d + 1\<rparr>))
            | Some existing \<Rightarrow>
                (let updated = existing\<lparr>m_user_id := userId, m_key := key, m_value := val,
                                        m_updated_at := updated_at\<rparr>
                 in if list_ex (\<lambda>m. same_user_key userId key m \<and> \<not> arbiter m) (memories d)
                    then (Inl unique_violation, d)
                    else (Inr updated,
                          d\<lparr>memories := map (\<lambda>m. if arbiter m then updated else m) (memories d)\<rparr>))))"


section \<open>The inference backend (the HTTP service behind utils/ollama.ts)\<close>

text \<open>What \<open>GET /api/tags\<close> does: the request or the decoding of its body fails, the status
  is not a success, or the body lists the names of \<open>data.models || []\<close>.\<close>

datatype tags_reply =
    TagsFailed string
  | TagsNotOk nat string
  | TagsOk "string list"

text \<open>What a non-streaming \<open>POST /api/generate\<close> does; \<open>GenerateOk\<close> carries \<open>data.response\<close>.\<close>

datatype generate_reply =
    GenerateFailed string
  | GenerateNotOk nat string
  | GenerateOk string

text \<open>What a streaming \<open>POST /api/generate\<close> does: the values the body's reader gives, one per
  \<open>read()\<close>, already decoded, and how reading ends.\<close>

datatype read_end = ReadDone | ReadFailed string

datatype stream_reply =
    StreamFailed string
  | StreamNotOk nat string
  | StreamNoBody
  | StreamBody "string list" read_end

text \<open>
  \<open>parse_line\<close> stands for \<open>JSON.parse\<close> followed by the reads of \<open>data.response\<close> and
  \<open>data.done\<close>: \<open>None\<close> when the line is not JSON.
\<close>

record backend =
  tags :: tags_reply
  generate :: "string \<Rightarrow> generate_reply"
  generate_stream :: "string \<Rightarrow> stream_reply"
  parse_line :: "string \<Rightarrow> (string \<times> bool) option"


section \<open>The world a request runs in\<close>

text \<open>
  \<open>clock\<close> is what \<open>new Date()\<close> and the store's \<open>NOW()\<close> read; only the environment moves it.
  \<open>env_OLLAMA_MODEL\<close> is the environment variable. \<open>calls\<close> lists the requests sent so far,
  oldest first.
\<close>

record world =
  db :: database
  ollama :: backend
  clock :: nat
  env_OLLAMA_MODEL :: "string option"
  calls :: "call list"

definition called :: "call \<Rightarrow> world \<Rightarrow> world" where
  "called c w = w\<lparr>calls := calls w @ [c]\<rparr>"

definition OLLAMA_MODEL :: "world \<Rightarrow> string" where
  "OLLAMA_MODEL w =
     (case env_OLLAMA_MODEL w of
        None \<Rightarrow> ''hue''
      | Some name \<Rightarrow> if name = [] then ''hue'' else name)"


section \<open>Memory functions (memory.ts)\<close>

definition logConversation :: "string \<Rightarrow> string \<Rightarrow> string \<Rightarrow> world \<Rightarrow> Conversation option \<times> world" where
  "logConversation userId message response w =
     (let w1 = called (InsertConversation userId message response) w
      in case insert_conversation userId message response [] (clock w1) (db w1) of
           (Inl error, d) \<Rightarrow> (None, w1\<lparr>db := d\<rparr>)
         | (Inr data, d) \<Rightarrow> (Some data, w1\<lparr>db := d\<rparr>))"

definition recallRecentConversations :: "string \<Rightarrow> nat \<Rightarrow> world \<Rightarrow> Conversation list \<times> world" where
  "recallRecentConversations userId limit w =
     (let w1 = called (SelectConversations userId limit) w
      in case select_conversations userId limit (db w1) of
           Inl error \<Rightarrow> ([], w1)
         | Inr data \<Rightarrow> (data, w1))"

text \<open>The call passes no \<open>onConflict\<close> option.\<close>

definition storeMemory :: "string \<Rightarrow> string \<Rightarrow> string \<Rightarrow> world \<Rightarrow> Memory option \<times> world" where
  "storeMemory userId key val w =
     (let w1 = called (UpsertMemory userId key val) w
      in case upsert_memory PrimaryKey userId key val (clock w1) (clock w1) (db w1) of
           (Inl error, d) \<Rightarrow> (None, w1\<lparr>db := d\<rparr>)
         | (Inr data, d) \<Rightarrow> (Some data, w1\<lparr>db := d\<rparr>))"

definition recallAllMemories :: "string \<Rightarrow> world \<Rightarrow> Memory list \<times> world" where
  "recallAllMemories userId w =
     (let w1 = called (SelectMemories userId) w
      in case select_memories userId (db w1) of
           Inl error \<Rightarrow> ([], w1)
         | Inr data \<Rightarrow> (data, w1))"


section \<open>Inference client (utils/ollama.ts)\<close>

text \<open>\<open>Array.prototype.join(sep)\<close>\<close>

fun join_with :: "string \<Rightarrow> string list \<Rightarrow> string" where
  "join_with sep [] = []"
| "join_with sep [x] = x"
| "join_with sep (x # y # ys) = x @ sep @ join_with sep (y # ys)"

record ollama_status =
  isRunning :: bool
  modelAvailable :: bool
  status_error :: "string option"

definition checkOllamaStatus :: "world \<Rightarrow> ollama_status \<times> world" where
  "checkOllamaStatus w =
     (let w1 = called GetTags w
      in case tags (ollama w1) of
           TagsFailed error \<Rightarrow>
             (\<lparr>isRunning = False, modelAvailable = False,
               status_error = Some (''Failed to connect to Ollama: '' @ error)\<rparr>, w1)
         | TagsNotOk status statusText \<Rightarrow>
             (\<lparr>isRunning = False, modelAvailable = False,
               status_error = Some (''Ollama is not responding: '' @ show_nat status @ '' '' @ statusText)\<rparr>, w1)
         | TagsOk models \<Rightarrow>
             (let available = list_ex (\<lambda>name. name = OLLAMA_MODEL w1) models
              in (\<lparr>isRunning = True, modelAvailable = available,
                   status_error =
                     (if available then None
                      else Some (''Model '' @ [CHR 0x27] @ OLLAMA_MODEL w1 @ [CHR 0x27] @
                                 '' not found. Available models: '' @ join_with '', '' models))\<rparr>, w1)))"

text \<open>\<open>ollamaRequest\<close> returns \<open>data.response\<close> or throws; \<open>Inl\<close> is the thrown error's message.\<close>

definition ollamaRequest :: "string \<Rightarrow> world \<Rightarrow> (string + string) \<times> world" where
  "ollamaRequest prompt w =
     (let w1 = called (PostGenerate prompt False) w
      in case generate (ollama w1) prompt of
           GenerateFailed error \<Rightarrow> (Inl error, w1)
         | GenerateNotOk status statusText \<Rightarrow>
             (Inl (''Ollama request failed: '' @ show_nat status @ '' '' @ statusText), w1)
         | GenerateOk response \<Rightarrow> (Inr response, w1))"

text \<open>
  What a consumer of the async generator \<open>ollamaStream\<close> observes: the chunks it yields, in
  order, and whether it then returns or throws. The body is a finite list of reads, so a
  stream that neither ends nor fails is outside the model.
\<close>

datatype outcome = Returned | Threw string

type_synonym generator = "string list \<times> outcome"

text \<open>
  The \<open>for (const line of lines)\<close> loop: the chunks yielded from these lines, and whether a
  line with \<open>done\<close> made the generator return. A line that does not parse is skipped.
\<close>

fun stream_lines :: "(string \<Rightarrow> (string \<times> bool) option) \<Rightarrow> string list \<Rightarrow> string list \<times> bool" where
  "stream_lines parse [] = ([], False)"
| "stream_lines parse (line # lines) =
     (if trim line \<noteq> [] then
        (case parse line of
           None \<Rightarrow> stream_lines parse lines
         | Some (response, done) \<Rightarrow>
             if done then ([response], True)
             else (case stream_lines parse lines of
                     (chunks, finished) \<Rightarrow> (response # chunks, finished)))
      else stream_lines parse lines)"

text \<open>
  The \<open>while (true)\<close> loop over \<open>reader.read()\<close>: \<open>buffer\<close> holds the unfinished last line.
  What is left in the buffer when the reader is done is not parsed.
\<close>

fun stream_reads ::
  "(string \<Rightarrow> (string \<times> bool) option) \<Rightarrow> string \<Rightarrow> string list \<Rightarrow> read_end \<Rightarrow> generator" where
  "stream_reads parse buffer [] ReadDone = ([], Returned)"
| "stream_reads parse buffer [] (ReadFailed error) = ([], Threw error)"
| "stream_reads parse buffer (v # reads) ending =
     (let pieces = split_nl (buffer @ v);
          lines = butlast pieces;
          buffer' = last pieces
      in case stream_lines parse lines of
           (chunks, finished) \<Rightarrow>
             if finished then (chunks, Returned)
             else (case stream_reads parse buffer' reads ending of
                     (later, out) \<Rightarrow> (chunks @ later, out)))"

definition ollamaStream :: "string \<Rightarrow> world \<Rightarrow> generator \<times> world" where
  "ollamaStream prompt w =
     (let w1 = called (PostGenerate prompt True) w
      in case generate_stream (ollama w1) prompt of
           StreamFailed error \<Rightarrow> (([], Threw error), w1)
         | StreamNotOk status statusText \<Rightarrow>
             (([], Threw (''Ollama stream request failed: '' @ show_nat status @ '' '' @ statusText)), w1)
         | StreamNoBody \<Rightarrow> (([], Threw ''Failed to get response reader''), w1)
         | StreamBody reads ending \<Rightarrow> (stream_reads (parse_line (ollama w1)) [] reads ending, w1))"


section \<open>HTTP handlers (index.ts)\<close>

text \<open>
  The body of \<open>POST /chat\<close> after \<open>express.json()\<close>: \<open>None\<close> is a field that is missing or
  \<open>null\<close>; \<open>stream\<close> defaults to \<open>false\<close>.
\<close>

record chat_body =
  body_message :: "string option"
  body_userId :: "string option"
  body_stream :: bool

text \<open>\<open>!v\<close> for a field that is a string when present.\<close>

definition falsy :: "string option \<Rightarrow> bool" where
  "falsy v = (case v of None \<Rightarrow> True | Some s \<Rightarrow> s = [])"

definition text_of :: "string option \<Rightarrow> string" where
  "text_of v = (case v of None \<Rightarrow> [] | Some s \<Rightarrow> s)"

text \<open>
  What the handler sends: \<open>res.status(code).json({error, details})\<close>, the JSON of a chat
  reply \<open>{response, conversationId, timestamp}\<close>, a chunked \<open>text/plain\<close> body as the list
  of chunks written before \<open>res.end()\<close>, \<open>{memories}\<close> and \<open>{memory}\<close>.
\<close>

datatype http_response =
    ErrorJson nat string "string option"
  | ChatJson string string nat
  | ChunkedText "string list"
  | MemoriesJson "Memory list"
  | MemoryJson "Memory option"

fun status_code :: "http_response \<Rightarrow> nat" where
  "status_code (ErrorJson code _ _) = code"
| "status_code _ = 200"

text \<open>The \<open>for await\<close> loop: \<open>fullResponse += chunk; res.write(chunk)\<close>.\<close>

fun relay :: "string list \<Rightarrow> string \<Rightarrow> string list \<Rightarrow> string \<times> string list" where
  "relay [] fullResponse written = (fullResponse, written)"
| "relay (chunk # chunks) fullResponse written =
     relay chunks (fullResponse @ chunk) (written @ [chunk])"

definition fullPrompt_of :: "string \<Rightarrow> string \<Rightarrow> string" where
  "fullPrompt_of memoryContext message =
     systemPrompt @ nl @ nl @ memoryContext @ nl @ nl @ ''User: '' @ message @ nl @ ''Hue:''"

text \<open>The \<open>if (stream)\<close> branch, with its own \<open>try\<close>/\<open>catch (streamError)\<close>.\<close>

definition chat_stream :: "string \<Rightarrow> string \<Rightarrow> string \<Rightarrow> world \<Rightarrow> http_response \<times> world" where
  "chat_stream userId message fullPrompt w =
     (case ollamaStream fullPrompt w of
        ((chunks, out), w1) \<Rightarrow>
          (case relay chunks [] [] of
             (fullResponse, written) \<Rightarrow>
               (case out of
                  Returned \<Rightarrow>
                    (case logConversation userId message fullResponse w1 of
                       (logged, w2) \<Rightarrow> (ChunkedText written, w2))
                | Threw streamError \<Rightarrow>
                    (ChunkedText (written @ [nl @ nl @ modelError]), w1))))"

text \<open>The \<open>else\<close> branch; an error thrown by \<open>ollamaRequest\<close> reaches the outer \<open>catch\<close>.\<close>

definition chat_regular :: "string \<Rightarrow> string \<Rightarrow> string \<Rightarrow> world \<Rightarrow> http_response \<times> world" where
  "chat_regular userId message fullPrompt w =
     (case ollamaRequest fullPrompt w of
        (Inl error, w1) \<Rightarrow> (ErrorJson 500 ''Failed to process chat request'' (Some error), w1)
      | (Inr response, w1) \<Rightarrow>
          (let formattedResponse = formatResponse response True
           in case logConversation userId message formattedResponse w1 of
                (logged, w2) \<Rightarrow> (ChatJson formattedResponse ''generated-id'' (clock w2), w2)))"

text \<open>\<open>app.post('/chat', ...)\<close>\<close>

definition post_chat :: "chat_body \<Rightarrow> world \<Rightarrow> http_response \<times> world" where
  "post_chat body w =
     (if falsy (body_message body) \<or> falsy (body_userId body)
      then (ErrorJson 400 ''Missing required fields: message and userId'' None, w)
      else
        (let message = text_of (body_message body);
             userId = text_of (body_userId body)
         in case checkOllamaStatus w of
              (ollamaStatus, w1) \<Rightarrow>
                if \<not> isRunning ollamaStatus
                then (ErrorJson 503 ''Ollama is not running'' (status_error ollamaStatus), w1)
                else if \<not> modelAvailable ollamaStatus
                then (ErrorJson 503 ''Model not available'' (status_error ollamaStatus), w1)
                else
                  (case recallRecentConversations userId 5 w1 of
                     (recentConversations, w2) \<Rightarrow>
                       (case recallAllMemories userId w2 of
                          (userMemories, w3) \<Rightarrow>
                            (let memoryContext =
                                   buildMemoryContext userId recentConversations userMemories;
                                 fullPrompt = fullPrompt_of memoryContext message
                             in if body_stream body
                                then chat_stream userId message fullPrompt w3
                                else chat_regular userId message fullPrompt w3)))))"

text \<open>
  \<open>app.get('/memories/:userId', ...)\<close>. The handler's \<open>catch\<close> answers 500, but
  \<open>recallAllMemories\<close> catches every error itself and returns a list, so nothing in the
  \<open>try\<close> block throws on a store failure.
\<close>

definition get_memories :: "string \<Rightarrow> world \<Rightarrow> http_response \<times> world" where
  "get_memories userId w =
     (case recallAllMemories userId w of
        (mems, w1) \<Rightarrow> (MemoriesJson mems, w1))"

text \<open>\<open>app.post('/memories/:userId', ...)\<close>\<close>

definition post_memories :: "string \<Rightarrow> string option \<Rightarrow> string option \<Rightarrow> world \<Rightarrow> http_response \<times> world" where
  "post_memories userId key val w =
     (if falsy key \<or> falsy val
      then (ErrorJson 400 ''Missing required fields: key and value'' None, w)
      else (case storeMemory userId (text_of key) (text_of val) w of
              (memory, w1) \<Rightarrow> (MemoryJson memory, w1)))"


section \<open>Notions used to state the properties\<close>

text \<open>
  The prompt \<open>post_chat\<close> assembles for a request that passes validation and the backend
  check: the two reads of the store do not depend on the calls made before them.
\<close>

definition assembled_prompt :: "chat_body \<Rightarrow> world \<Rightarrow> string" where
  "assembled_prompt body w =
     (let message = text_of (body_message body);
          userId = text_of (body_userId body);
          recentConversations = fst (recallRecentConversations userId 5 w);
          userMemories = fst (recallAllMemories userId w)
      in fullPrompt_of (buildMemoryContext userId recentConversations userMemories) message)"

text \<open>
  The constraints of the \<open>memories\<close> table: \<open>id\<close> is the primary key,
  \<open>UNIQUE(user_id, key)\<close>, and a generated identifier is one no row has yet.
\<close>

definition well_formed :: "database \<Rightarrow> bool" where
  "well_formed d =
     (distinct (map m_id (memories d)) \<and>
      distinct (map (\<lambda>m. (m_user_id m, m_key m)) (memories d)) \<and>
      list_all (\<lambda>m. m_id m < next_id d) (memories d))"

text \<open>A sequence of \<open>storeMemory\<close> calls, each at its own time: \<open>(now, userId, key, value)\<close>.\<close>

fun store_all :: "(nat \<times> string \<times> string \<times> string) list \<Rightarrow> world \<Rightarrow> world" where
  "store_all [] w = w"
| "store_all ((now, userId, key, val) # ops) w =
     store_all ops (snd (storeMemory userId key val (w\<lparr>clock := now\<rparr>)))"


section \<open>Example data\<close>

text \<open>
  The lines of the examples are the backend's newline-delimited JSON, reduced to the two
  fields the code reads: \<open>json_line\<close> writes such a line, and \<open>example_parse\<close> is
  \<open>JSON.parse\<close> on lines of exactly that shape whose text holds no quote and no backslash;
  any other line counts as one that does not parse.
\<close>

abbreviation dq :: string where
  "dq \<equiv> [CHR 0x22]"

definition json_line :: "string \<Rightarrow> bool \<Rightarrow> string" where
  "json_line response done =
     ''{'' @ dq @ ''response'' @ dq @ '':'' @ dq @ response @ dq @ '','' @
     dq @ ''done'' @ dq @ '':'' @ (if done then ''true'' else ''false'') @ ''}''"

definition example_parse :: "string \<Rightarrow> (string \<times> bool) option" where
  "example_parse line =
     (let opening = ''{'' @ dq @ ''response'' @ dq @ '':'' @ dq;
          rest = drop (length opening) line;
          response = takeWhile (\<lambda>c. c \<noteq> CHR 0x22) rest;
          closing = drop (length response) rest
      in if take (length opening) line \<noteq> opening then None
         else if closing = dq @ '','' @ dq @ ''done'' @ dq @ '':true}'' then Some (response, True)
         else if closing = dq @ '','' @ dq @ ''done'' @ dq @ '':false}'' then Some (response, False)
         else None)"

definition example_backend :: "tags_reply \<Rightarrow> stream_reply \<Rightarrow> backend" where
  "example_backend listing body =
     \<lparr>tags = listing,
      generate = (\<lambda>prompt. GenerateOk (''  Hello there! '' @ nl)),
      generate_stream = (\<lambda>prompt. body),
      parse_line = example_parse\<rparr>"

text \<open>What the store of an example answers: everything, nothing, or everything but inserts
  of conversations.\<close>

definition store_up :: "call \<Rightarrow> bool" where
  "store_up c = True"

definition store_down :: "call \<Rightarrow> bool" where
  "store_down c = False"

fun inserts_fail :: "call \<Rightarrow> bool" where
  "inserts_fail (InsertConversation _ _ _) = False"
| "inserts_fail _ = True"

definition empty_store :: database where
  "empty_store = \<lparr>conversations = [], memories = [], answers = store_up, next_id = 0\<rparr>"

definition example_world :: "tags_reply \<Rightarrow> stream_reply \<Rightarrow> (call \<Rightarrow> bool) \<Rightarrow> world" where
  "example_world listing body up =
     \<lparr>db = empty_store\<lparr>answers := up\<rparr>, ollama = example_backend listing body, clock = 100,
      env_OLLAMA_MODEL = None, calls = []\<rparr>"

definition models_with_hue :: tags_reply where
  "models_with_hue = TagsOk [''llama3'', ''hue'']"

text \<open>
  A body that arrives in two reads, the second line split between them, and ends with a
  \<open>done\<close> line; and a body whose reader fails after the first line.
\<close>

definition completed_stream :: stream_reply where
  "completed_stream =
     StreamBody [json_line '' Hel'' False @ nl @ take 9 (json_line ''lo'' False),
                 drop 9 (json_line ''lo'' False) @ nl @ json_line '' '' True @ nl] ReadDone"

definition broken_stream :: stream_reply where
  "broken_stream = StreamBody [json_line ''Hel'' False @ nl] (ReadFailed ''socket hang up'')"

definition example_body :: "bool \<Rightarrow> chat_body" where
  "example_body streaming =
     \<lparr>body_message = Some ''what is my favorite color'', body_userId = Some ''u1'',
      body_stream = streaming\<rparr>"

text \<open>The \<open>k\<close>-th exchange of user \<open>u1\<close>, created at time \<open>k\<close>.\<close>

definition conv_at :: "nat \<Rightarrow> Conversation" where
  "conv_at k =
     \<lparr>c_id = k, c_user_id = ''u1'', c_message = ''m'' @ show_nat k,
      c_response = ''r'' @ show_nat k, c_created_at = k, c_metadata = []\<rparr>"


text \<open>The example world after user \<open>u1\<close> has stored the fact \<open>color = blue\<close>.\<close>

definition fact_world :: world where
  "fact_world =
     snd (storeMemory ''u1'' ''color'' ''blue'' (example_world models_with_hue completed_stream store_up))"

text \<open>A world whose store has stopped answering.\<close>

definition outage :: "world \<Rightarrow> world" where
  "outage w = w\<lparr>db := (db w)\<lparr>answers := store_down\<rparr>\<rparr>"

section \<open>Auxiliary facts\<close>

subsection \<open>Context builder\<close>

lemma foldl_append_concat:
  "foldl (\<lambda>acc x. acc @ f x) a xs = a @ concat (map f xs)"
  by (induction xs arbitrary: a) simp_all

lemma buildMemoryContext_sections:
  "buildMemoryContext userId convs mems =
     (if convs = [] then []
      else history_header @
           concat (map (\<lambda>(index, conv). render_conversation index conv)
                     (enumerate 0 (slice_from_end 5 convs)))) @
     (if mems = [] then [] else memories_header @ concat (map render_memory mems))"
proof -
  have h: "(\<lambda>context (index, conv). context @ render_conversation index conv) =
           (\<lambda>acc x. acc @ (\<lambda>(index, conv). render_conversation index conv) x)"
    by (auto simp: fun_eq_iff)
  show ?thesis
    unfolding buildMemoryContext_def Let_def h foldl_append_concat
    by simp
qed

text \<open>The block is the history section followed by the facts section.\<close>

lemma buildMemoryContext_split:
  "buildMemoryContext userId convs mems =
     buildMemoryContext userId convs [] @ buildMemoryContext userId [] mems"
  by (simp add: buildMemoryContext_sections)

lemma slice_from_end_suffix: "suffix (slice_from_end k xs) xs"
  unfolding slice_from_end_def by (rule suffix_drop)

lemma length_slice_from_end: "length (slice_from_end k xs) = min k (length xs)"
  unfolding slice_from_end_def by simp

text \<open>
  In the chat handler the slice changes nothing: the recent conversations are fetched with
  limit 5, and are rendered as the store returns them, most recent first.
\<close>

lemma slice_from_end_short: "length xs \<le> k \<Longrightarrow> slice_from_end k xs = xs"
  unfolding slice_from_end_def by simp

lemma slice_of_recent_conversations:
  "slice_from_end 5 (fst (recallRecentConversations userId 5 w)) =
     fst (recallRecentConversations userId 5 w)"
  by (rule slice_from_end_short)
    (simp add: recallRecentConversations_def select_conversations_def Let_def)


subsection \<open>Calls and reads\<close>

lemma relay_eq: "relay chunks fullResponse written = (fullResponse @ concat chunks, written @ chunks)"
  by (induction chunks arbitrary: fullResponse written) simp_all

lemma called_fields [simp]:
  "db (called c w) = db w"
  "ollama (called c w) = ollama w"
  "clock (called c w) = clock w"
  "env_OLLAMA_MODEL (called c w) = env_OLLAMA_MODEL w"
  "calls (called c w) = calls w @ [c]"
  by (simp_all add: called_def)

lemma OLLAMA_MODEL_called [simp]: "OLLAMA_MODEL (called c w) = OLLAMA_MODEL w"
  by (simp add: OLLAMA_MODEL_def)

lemma checkOllamaStatus_snd: "snd (checkOllamaStatus w) = called GetTags w"
  by (simp add: checkOllamaStatus_def Let_def split: tags_reply.splits)

lemma recallRecentConversations_snd:
  "snd (recallRecentConversations userId limit w) = called (SelectConversations userId limit) w"
  by (simp add: recallRecentConversations_def Let_def split: sum.splits)

lemma recallRecentConversations_fst:
  "fst (recallRecentConversations userId limit w) =
     (if answers (db w) (SelectConversations userId limit)
      then take limit (rev (sort_key c_created_at (filter (\<lambda>c. c_user_id c = userId) (conversations (db w)))))
      else [])"
  by (simp add: recallRecentConversations_def select_conversations_def Let_def)

lemma recallAllMemories_snd:
  "snd (recallAllMemories userId w) = called (SelectMemories userId) w"
  by (simp add: recallAllMemories_def Let_def split: sum.splits)

lemma recallAllMemories_fst:
  "fst (recallAllMemories userId w) =
     (if answers (db w) (SelectMemories userId)
      then rev (sort_key m_updated_at (filter (\<lambda>m. m_user_id m = userId) (memories (db w))))
      else [])"
  by (simp add: recallAllMemories_def select_memories_def Let_def)

lemma ollamaStream_snd: "snd (ollamaStream prompt w) = called (PostGenerate prompt True) w"
  by (simp add: ollamaStream_def Let_def split: stream_reply.splits)

lemma ollamaStream_fst_called: "fst (ollamaStream prompt (called c w)) = fst (ollamaStream prompt w)"
  by (simp add: ollamaStream_def Let_def split: stream_reply.splits)

lemma ollamaRequest_snd: "snd (ollamaRequest prompt w) = called (PostGenerate prompt False) w"
  by (simp add: ollamaRequest_def Let_def split: generate_reply.splits)

lemma ollamaRequest_fst_called: "fst (ollamaRequest prompt (called c w)) = fst (ollamaRequest prompt w)"
  by (simp add: ollamaRequest_def Let_def split: generate_reply.splits)

lemma logConversation_calls:
  "calls (snd (logConversation userId message response w)) =
     calls w @ [InsertConversation userId message response]"
  by (simp add: logConversation_def insert_conversation_def Let_def)

lemma logConversation_clock:
  "clock (snd (logConversation userId message response w)) = clock w"
  by (simp add: logConversation_def insert_conversation_def Let_def)

lemma logConversation_conversations:
  "conversations (db (snd (logConversation userId message response w))) =
     (if answers (db w) (InsertConversation userId message response)
      then conversations (db w) @
           [\<lparr>c_id = next_id (db w), c_user_id = userId, c_message = message,
             c_response = response, c_created_at = clock w, c_metadata = []\<rparr>]
      else conversations (db w))"
  by (simp add: logConversation_def insert_conversation_def Let_def)

lemma logConversation_memories:
  "memories (db (snd (logConversation userId message response w))) = memories (db w)"
  by (simp add: logConversation_def insert_conversation_def Let_def)

lemma post_chat_ready:
  assumes "\<not> falsy (body_message body)" and "\<not> falsy (body_userId body)"
    and "isRunning (fst (checkOllamaStatus w))"
    and "modelAvailable (fst (checkOllamaStatus w))"
  shows "post_chat body w =
           (let userId = text_of (body_userId body);
                message = text_of (body_message body);
                w3 = called (SelectMemories userId) (called (SelectConversations userId 5) (called GetTags w))
            in if body_stream body
               then chat_stream userId message (assembled_prompt body w) w3
               else chat_regular userId message (assembled_prompt body w) w3)"
proof -
  obtain st w1 where c: "checkOllamaStatus w = (st, w1)" by (cases "checkOllamaStatus w")
  have w1: "w1 = called GetTags w" using checkOllamaStatus_snd [of w] c by simp
  obtain rc w2 where r: "recallRecentConversations (text_of (body_userId body)) 5 w1 = (rc, w2)"
    by (cases "recallRecentConversations (text_of (body_userId body)) 5 w1")
  have w2: "w2 = called (SelectConversations (text_of (body_userId body)) 5) w1"
    using recallRecentConversations_snd [of "text_of (body_userId body)" 5 w1] r by simp
  have rc: "rc = fst (recallRecentConversations (text_of (body_userId body)) 5 w)"
    using r w1 recallRecentConversations_fst [of "text_of (body_userId body)" 5 w1]
      recallRecentConversations_fst [of "text_of (body_userId body)" 5 w] by simp
  obtain ms w3 where m: "recallAllMemories (text_of (body_userId body)) w2 = (ms, w3)"
    by (cases "recallAllMemories (text_of (body_userId body)) w2")
  have w3: "w3 = called (SelectMemories (text_of (body_userId body))) w2"
    using recallAllMemories_snd [of "text_of (body_userId body)" w2] m by simp
  have ms: "ms = fst (recallAllMemories (text_of (body_userId body)) w)"
    using m w2 w1 recallAllMemories_fst [of "text_of (body_userId body)" w2]
      recallAllMemories_fst [of "text_of (body_userId body)" w] by simp
  show ?thesis
    using assms c
    by (simp add: post_chat_def Let_def r m assembled_prompt_def rc [symmetric] ms [symmetric] w1 [symmetric] w2 [symmetric] w3 [symmetric])
qed

subsection \<open>The two branches of the chat handler\<close>

lemma chat_stream_returned:
  assumes "fst (ollamaStream prompt w) = (chunks, Returned)"
  shows "chat_stream userId message prompt w =
           (ChunkedText chunks,
            snd (logConversation userId message (concat chunks) (called (PostGenerate prompt True) w)))"
proof -
  obtain g w1 where o: "ollamaStream prompt w = (g, w1)" by (cases "ollamaStream prompt w")
  have g: "g = (chunks, Returned)" using assms o by simp
  have w1: "w1 = called (PostGenerate prompt True) w" using ollamaStream_snd [of prompt w] o by simp
  show ?thesis
    by (simp add: chat_stream_def o g relay_eq w1 case_prod_beta)
qed

lemma chat_stream_threw:
  assumes "fst (ollamaStream prompt w) = (chunks, Threw error)"
  shows "chat_stream userId message prompt w =
           (ChunkedText (chunks @ [nl @ nl @ modelError]), called (PostGenerate prompt True) w)"
proof -
  obtain g w1 where o: "ollamaStream prompt w = (g, w1)" by (cases "ollamaStream prompt w")
  have g: "g = (chunks, Threw error)" using assms o by simp
  have w1: "w1 = called (PostGenerate prompt True) w" using ollamaStream_snd [of prompt w] o by simp
  show ?thesis
    by (simp add: chat_stream_def o g relay_eq w1)
qed

lemma chat_regular_ok:
  assumes "fst (ollamaRequest prompt w) = Inr response"
  shows "chat_regular userId message prompt w =
           (ChatJson (trim response) ''generated-id'' (clock w),
            snd (logConversation userId message (trim response) (called (PostGenerate prompt False) w)))"
proof -
  obtain r w1 where o: "ollamaRequest prompt w = (r, w1)" by (cases "ollamaRequest prompt w")
  have r: "r = Inr response" using assms o by simp
  have w1: "w1 = called (PostGenerate prompt False) w" using ollamaRequest_snd [of prompt w] o by simp
  show ?thesis
    by (simp add: chat_regular_def o r w1 formatResponse_def Let_def case_prod_beta logConversation_clock)
qed

lemma chat_regular_threw:
  assumes "fst (ollamaRequest prompt w) = Inl error"
  shows "chat_regular userId message prompt w =
           (ErrorJson 500 ''Failed to process chat request'' (Some error),
            called (PostGenerate prompt False) w)"
proof -
  obtain r w1 where o: "ollamaRequest prompt w = (r, w1)" by (cases "ollamaRequest prompt w")
  have r: "r = Inl error" using assms o by simp
  have w1: "w1 = called (PostGenerate prompt False) w" using ollamaRequest_snd [of prompt w] o by simp
  show ?thesis
    by (simp add: chat_regular_def o r w1)
qed

lemma post_chat_stream_returned:
  assumes "\<not> falsy (body_message body)" and "\<not> falsy (body_userId body)"
    and "isRunning (fst (checkOllamaStatus w))"
    and "modelAvailable (fst (checkOllamaStatus w))"
    and "body_stream body"
    and "fst (ollamaStream (assembled_prompt body w) w) = (chunks, Returned)"
  shows "fst (post_chat body w) = ChunkedText chunks"
    and "calls (snd (post_chat body w)) =
           calls w @ [GetTags, SelectConversations (text_of (body_userId body)) 5,
                      SelectMemories (text_of (body_userId body)),
                      PostGenerate (assembled_prompt body w) True,
                      InsertConversation (text_of (body_userId body)) (text_of (body_message body)) (concat chunks)]"
    and "conversations (db (snd (post_chat body w))) =
           (if answers (db w)
                    (InsertConversation (text_of (body_userId body))
                         (text_of (body_message body)) (concat chunks))
            then conversations (db w) @
                 [\<lparr>c_id = next_id (db w), c_user_id = text_of (body_userId body),
                   c_message = text_of (body_message body), c_response = concat chunks,
                   c_created_at = clock w, c_metadata = []\<rparr>]
            else conversations (db w))"
    and "memories (db (snd (post_chat body w))) = memories (db w)"
proof -
  let ?u = "text_of (body_userId body)"
  let ?w3 = "called (SelectMemories ?u) (called (SelectConversations ?u 5) (called GetTags w))"
  have s: "fst (ollamaStream (assembled_prompt body w) ?w3) = (chunks, Returned)"
    using assms(6) by (simp add: ollamaStream_fst_called)
  have p: "post_chat body w =
             (ChunkedText chunks,
              snd (logConversation ?u (text_of (body_message body)) (concat chunks)
                     (called (PostGenerate (assembled_prompt body w) True) ?w3)))"
    using post_chat_ready [OF assms(1-4)] assms(5) chat_stream_returned [OF s]
    by (simp add: Let_def)
  show "fst (post_chat body w) = ChunkedText chunks" by (simp add: p)
  show "calls (snd (post_chat body w)) =
           calls w @ [GetTags, SelectConversations ?u 5, SelectMemories ?u,
                      PostGenerate (assembled_prompt body w) True,
                      InsertConversation ?u (text_of (body_message body)) (concat chunks)]"
    by (simp add: p logConversation_calls)
  show "conversations (db (snd (post_chat body w))) =
           (if answers (db w)
                    (InsertConversation (text_of (body_userId body))
                         (text_of (body_message body)) (concat chunks))
            then conversations (db w) @
                 [\<lparr>c_id = next_id (db w), c_user_id = ?u,
                   c_message = text_of (body_message body), c_response = concat chunks,
                   c_created_at = clock w, c_metadata = []\<rparr>]
            else conversations (db w))"
    by (simp add: p logConversation_conversations)
  show "memories (db (snd (post_chat body w))) = memories (db w)"
    by (simp add: p logConversation_memories)
qed

lemma post_chat_stream_threw:
  assumes "\<not> falsy (body_message body)" and "\<not> falsy (body_userId body)"
    and "isRunning (fst (checkOllamaStatus w))"
    and "modelAvailable (fst (checkOllamaStatus w))"
    and "body_stream body"
    and "fst (ollamaStream (assembled_prompt body w) w) = (chunks, Threw error)"
  shows "post_chat body w =
           (ChunkedText (chunks @ [nl @ nl @ modelError]),
            called (PostGenerate (assembled_prompt body w) True)
              (called (SelectMemories (text_of (body_userId body)))
                 (called (SelectConversations (text_of (body_userId body)) 5) (called GetTags w))))"
proof -
  let ?u = "text_of (body_userId body)"
  let ?w3 = "called (SelectMemories ?u) (called (SelectConversations ?u 5) (called GetTags w))"
  have s: "fst (ollamaStream (assembled_prompt body w) ?w3) = (chunks, Threw error)"
    using assms(6) by (simp add: ollamaStream_fst_called)
  show ?thesis
    using post_chat_ready [OF assms(1-4)] assms(5) chat_stream_threw [OF s]
    by (simp add: Let_def)
qed

lemma post_chat_regular_ok:
  assumes "\<not> falsy (body_message body)" and "\<not> falsy (body_userId body)"
    and "isRunning (fst (checkOllamaStatus w))"
    and "modelAvailable (fst (checkOllamaStatus w))"
    and "\<not> body_stream body"
    and "fst (ollamaRequest (assembled_prompt body w) w) = Inr response"
  shows "fst (post_chat body w) = ChatJson (trim response) ''generated-id'' (clock w)"
    and "calls (snd (post_chat body w)) =
           calls w @ [GetTags, SelectConversations (text_of (body_userId body)) 5,
                      SelectMemories (text_of (body_userId body)),
                      PostGenerate (assembled_prompt body w) False,
                      InsertConversation (text_of (body_userId body)) (text_of (body_message body)) (trim response)]"
    and "conversations (db (snd (post_chat body w))) =
           (if answers (db w)
                    (InsertConversation (text_of (body_userId body))
                         (text_of (body_message body)) (trim response))
            then conversations (db w) @
                 [\<lparr>c_id = next_id (db w), c_user_id = text_of (body_userId body),
                   c_message = text_of (body_message body), c_response = trim response,
                   c_created_at = clock w, c_metadata = []\<rparr>]
            else conversations (db w))"
proof -
  let ?u = "text_of (body_userId body)"
  let ?w3 = "called (SelectMemories ?u) (called (SelectConversations ?u 5) (called GetTags w))"
  have s: "fst (ollamaRequest (assembled_prompt body w) ?w3) = Inr response"
    using assms(6) by (simp add: ollamaRequest_fst_called)
  have p: "post_chat body w =
             (ChatJson (trim response) ''generated-id'' (clock w),
              snd (logConversation ?u (text_of (body_message body)) (trim response)
                     (called (PostGenerate (assembled_prompt body w) False) ?w3)))"
    using post_chat_ready [OF assms(1-4)] assms(5) chat_regular_ok [OF s]
    by (simp add: Let_def)
  show "fst (post_chat body w) = ChatJson (trim response) ''generated-id'' (clock w)"
    by (simp add: p)
  show "calls (snd (post_chat body w)) =
           calls w @ [GetTags, SelectConversations ?u 5, SelectMemories ?u,
                      PostGenerate (assembled_prompt body w) False,
                      InsertConversation ?u (text_of (body_message body)) (trim response)]"
    by (simp add: p logConversation_calls)
  show "conversations (db (snd (post_chat body w))) =
           (if answers (db w)
                    (InsertConversation (text_of (body_userId body))
                         (text_of (body_message body)) (trim response))
            then conversations (db w) @
                 [\<lparr>c_id = next_id (db w), c_user_id = ?u,
                   c_message = text_of (body_message body), c_response = trim response,
                   c_created_at = clock w, c_metadata = []\<rparr>]
            else conversations (db w))"
    by (simp add: p logConversation_conversations)
qed

subsection \<open>Upserts on the memories table\<close>

lemma find_None_list_ex: "find P xs = None \<longleftrightarrow> \<not> list_ex P xs"
  by (auto simp: find_None_iff list_ex_iff)

lemma fresh_id_not_found:
  assumes "list_all (\<lambda>m. m_id m < next_id d) (memories d)"
  shows "find (\<lambda>m. m_id m = next_id d) (memories d) = None"
  using assms by (auto simp: find_None_iff list_all_iff)

lemma upsert_primary_key:
  assumes "well_formed d" and "answers d (UpsertMemory userId key val)"
  shows "upsert_memory PrimaryKey userId key val updated_at now d =
           (if list_ex (same_user_key userId key) (memories d)
            then (Inl unique_violation, d)
            else (Inr \<lparr>m_id = next_id d, m_user_id = userId, m_key = key, m_value = val,
                       m_created_at = now, m_updated_at = updated_at\<rparr>,
                  d\<lparr>memories := memories d @
                       [\<lparr>m_id = next_id d, m_user_id = userId, m_key = key, m_value = val,
                         m_created_at = now, m_updated_at = updated_at\<rparr>],
                    next_id := next_id d + 1\<rparr>))"
proof -
  have "find (\<lambda>m. m_id m = next_id d) (memories d) = None"
    using assms(1) by (simp add: well_formed_def fresh_id_not_found)
  then show ?thesis
    using assms(2) by (simp add: upsert_memory_def Let_def)
qed

lemma same_pair_unique:
  assumes "distinct (map (\<lambda>m. (m_user_id m, m_key m)) ms)"
    and "a \<in> set ms" and "b \<in> set ms"
    and "same_user_key userId key a" and "same_user_key userId key b"
  shows "a = b"
proof -
  have "inj_on (\<lambda>m. (m_user_id m, m_key m)) (set ms)"
    using assms(1) by (simp add: distinct_map)
  moreover have "(\<lambda>m. (m_user_id m, m_key m)) a = (\<lambda>m. (m_user_id m, m_key m)) b"
    using assms(4,5) by (simp add: same_user_key_def)
  ultimately show ?thesis using assms(2,3) by (auto dest: inj_onD)
qed

lemma upsert_user_key_existing:
  assumes "well_formed d" and "answers d (UpsertMemory userId key val)"
    and "existing \<in> set (memories d)" and "same_user_key userId key existing"
  shows "upsert_memory UserIdAndKey userId key val updated_at now d =
           (Inr (existing\<lparr>m_value := val, m_updated_at := updated_at\<rparr>),
            d\<lparr>memories := map (\<lambda>m. if m = existing
                                     then existing\<lparr>m_value := val, m_updated_at := updated_at\<rparr>
                                     else m) (memories d)\<rparr>)"
proof -
  have dist: "distinct (map (\<lambda>m. (m_user_id m, m_key m)) (memories d))"
    using assms(1) by (simp add: well_formed_def)
  have only: "\<And>m. m \<in> set (memories d) \<Longrightarrow> same_user_key userId key m \<longleftrightarrow> m = existing"
    using same_pair_unique [OF dist _ assms(3) _ assms(4)] assms(4) by blast
  obtain e where f: "find (same_user_key userId key) (memories d) = Some e"
    using assms(3,4) by (cases "find (same_user_key userId key) (memories d)")
      (auto simp: find_None_iff)
  have e: "e = existing"
  proof -
    from f have "e \<in> set (memories d)" and "same_user_key userId key e"
      by (auto simp: find_Some_iff in_set_conv_nth)
    then show ?thesis using only by blast
  qed
  have upd: "existing\<lparr>m_user_id := userId, m_key := key, m_value := val, m_updated_at := updated_at\<rparr>
             = existing\<lparr>m_value := val, m_updated_at := updated_at\<rparr>"
    using assms(4) by (simp add: same_user_key_def)
  have m: "map (\<lambda>m. if same_user_key userId key m
                      then existing\<lparr>m_value := val, m_updated_at := updated_at\<rparr> else m) (memories d)
           = map (\<lambda>m. if m = existing
                      then existing\<lparr>m_value := val, m_updated_at := updated_at\<rparr> else m) (memories d)"
    using only by (intro map_cong) auto
  show ?thesis
    using assms(2) by (simp add: upsert_memory_def Let_def f e upd m list_ex_iff)
qed

lemma upsert_memory_well_formed:
  assumes "well_formed d"
  shows "well_formed (snd (upsert_memory target userId key val updated_at now d))"
proof (cases "answers d (UpsertMemory userId key val)")
  case False
  then show ?thesis using assms by (simp add: upsert_memory_def)
next
  case up: True
  have ins: "well_formed (d\<lparr>memories := memories d @
                 [\<lparr>m_id = next_id d, m_user_id = userId, m_key = key, m_value = val,
                   m_created_at = now, m_updated_at = updated_at\<rparr>],
               next_id := next_id d + 1\<rparr>)"
    if "\<not> list_ex (same_user_key userId key) (memories d)"
    using assms that
    by (auto simp: well_formed_def list_ex_iff list_all_iff same_user_key_def)
  show ?thesis
  proof (cases target)
    case PrimaryKey
    then show ?thesis
      using upsert_primary_key [OF assms up] ins assms by simp
  next
    case UserIdAndKey
    show ?thesis
    proof (cases "list_ex (same_user_key userId key) (memories d)")
      case False
      then have "find (same_user_key userId key) (memories d) = None"
        by (simp add: find_None_list_ex)
      then show ?thesis
        using up UserIdAndKey False ins by (simp add: upsert_memory_def Let_def)
    next
      case True
      then obtain existing where ex: "existing \<in> set (memories d)" "same_user_key userId key existing"
        by (auto simp: list_ex_iff)
      let ?f = "\<lambda>m. if m = existing then existing\<lparr>m_value := val, m_updated_at := updated_at\<rparr> else m"
      have ids: "map (m_id \<circ> ?f) (memories d) = map m_id (memories d)"
        by (rule map_cong) auto
      have pairs: "map ((\<lambda>m. (m_user_id m, m_key m)) \<circ> ?f) (memories d) =
                   map (\<lambda>m. (m_user_id m, m_key m)) (memories d)"
        by (rule map_cong) auto
      have bound: "list_all (\<lambda>m. m_id m < next_id d) (map ?f (memories d))"
        using assms ex(1) by (auto simp: well_formed_def list_all_iff)
      show ?thesis
        using upsert_user_key_existing [OF assms up ex] UserIdAndKey assms bound
        by (simp add: well_formed_def ids pairs)
    qed
  qed
qed


subsection \<open>The handler as a whole\<close>

lemma post_chat_not_running:
  assumes "\<not> falsy (body_message body)" and "\<not> falsy (body_userId body)"
    and "\<not> isRunning (fst (checkOllamaStatus w))"
  shows "post_chat body w =
           (ErrorJson 503 ''Ollama is not running'' (status_error (fst (checkOllamaStatus w))),
            called GetTags w)"
proof -
  obtain st w1 where c: "checkOllamaStatus w = (st, w1)" by (cases "checkOllamaStatus w")
  have w1: "w1 = called GetTags w" using checkOllamaStatus_snd [of w] c by simp
  show ?thesis using assms c by (simp add: post_chat_def Let_def w1)
qed

lemma post_chat_model_missing:
  assumes "\<not> falsy (body_message body)" and "\<not> falsy (body_userId body)"
    and "isRunning (fst (checkOllamaStatus w))"
    and "\<not> modelAvailable (fst (checkOllamaStatus w))"
  shows "post_chat body w =
           (ErrorJson 503 ''Model not available'' (status_error (fst (checkOllamaStatus w))),
            called GetTags w)"
proof -
  obtain st w1 where c: "checkOllamaStatus w = (st, w1)" by (cases "checkOllamaStatus w")
  have w1: "w1 = called GetTags w" using checkOllamaStatus_snd [of w] c by simp
  show ?thesis using assms c by (simp add: post_chat_def Let_def w1)
qed

lemma checkOllamaStatus_fst:
  "fst (checkOllamaStatus w) =
     (case tags (ollama w) of
        TagsFailed error \<Rightarrow>
          \<lparr>isRunning = False, modelAvailable = False,
            status_error = Some (''Failed to connect to Ollama: '' @ error)\<rparr>
      | TagsNotOk status statusText \<Rightarrow>
          \<lparr>isRunning = False, modelAvailable = False,
            status_error = Some (''Ollama is not responding: '' @ show_nat status @ '' '' @ statusText)\<rparr>
      | TagsOk models \<Rightarrow>
          \<lparr>isRunning = True, modelAvailable = (OLLAMA_MODEL w \<in> set models),
            status_error =
              (if OLLAMA_MODEL w \<in> set models then None
               else Some (''Model '' @ [CHR 0x27] @ OLLAMA_MODEL w @ [CHR 0x27] @
                          '' not found. Available models: '' @ join_with '', '' models))\<rparr>)"
  by (auto simp: checkOllamaStatus_def Let_def list_ex_iff split: tags_reply.splits)

lemma post_chat_regular_threw:
  assumes "\<not> falsy (body_message body)" and "\<not> falsy (body_userId body)"
    and "isRunning (fst (checkOllamaStatus w))"
    and "modelAvailable (fst (checkOllamaStatus w))"
    and "\<not> body_stream body"
    and "fst (ollamaRequest (assembled_prompt body w) w) = Inl error"
  shows "post_chat body w =
           (ErrorJson 500 ''Failed to process chat request'' (Some error),
            called (PostGenerate (assembled_prompt body w) False)
              (called (SelectMemories (text_of (body_userId body)))
                 (called (SelectConversations (text_of (body_userId body)) 5) (called GetTags w))))"
proof -
  let ?u = "text_of (body_userId body)"
  let ?w3 = "called (SelectMemories ?u) (called (SelectConversations ?u 5) (called GetTags w))"
  have s: "fst (ollamaRequest (assembled_prompt body w) ?w3) = Inl error"
    using assms(6) by (simp add: ollamaRequest_fst_called)
  show ?thesis
    using post_chat_ready [OF assms(1-4)] assms(5) chat_regular_threw [OF s]
    by (simp add: Let_def)
qed

lemma post_chat_dispatches:
  assumes "\<not> falsy (body_message body)" and "\<not> falsy (body_userId body)"
    and "isRunning (fst (checkOllamaStatus w))"
    and "modelAvailable (fst (checkOllamaStatus w))"
  shows "\<exists>later. calls (snd (post_chat body w)) =
           calls w @ [GetTags, SelectConversations (text_of (body_userId body)) 5,
                      SelectMemories (text_of (body_userId body)),
                      PostGenerate (assembled_prompt body w) (body_stream body)] @ later"
proof (cases "body_stream body")
  case True
  obtain chunks out where g: "fst (ollamaStream (assembled_prompt body w) w) = (chunks, out)"
    by (cases "fst (ollamaStream (assembled_prompt body w) w)")
  show ?thesis
  proof (cases out)
    case Returned
    from post_chat_stream_returned(2) [OF assms True g [unfolded Returned]] True
    show ?thesis by simp
  next
    case (Threw error)
    from post_chat_stream_threw [OF assms True g [unfolded Threw]] True
    show ?thesis by simp
  qed
next
  case False
  show ?thesis
  proof (cases "fst (ollamaRequest (assembled_prompt body w) w)")
    case (Inl error)
    from post_chat_regular_threw [OF assms False Inl] False
    show ?thesis by simp
  next
    case (Inr response)
    from post_chat_regular_ok(2) [OF assms False Inr] False
    show ?thesis by simp
  qed
qed

lemma post_chat_stream_status:
  assumes "\<not> falsy (body_message body)" and "\<not> falsy (body_userId body)"
    and "isRunning (fst (checkOllamaStatus w))"
    and "modelAvailable (fst (checkOllamaStatus w))"
    and "body_stream body"
  shows "status_code (fst (post_chat body w)) = 200"
proof -
  obtain chunks out where g: "fst (ollamaStream (assembled_prompt body w) w) = (chunks, out)"
    by (cases "fst (ollamaStream (assembled_prompt body w) w)")
  show ?thesis
  proof (cases out)
    case Returned
    from post_chat_stream_returned(1) [OF assms g [unfolded Returned]]
    show ?thesis by simp
  next
    case (Threw error)
    from post_chat_stream_threw [OF assms g [unfolded Threw]]
    show ?thesis by simp
  qed
qed

lemma buildMemoryContext_empty: "buildMemoryContext userId [] [] = []"
  by (simp add: buildMemoryContext_sections)

subsection \<open>Trimming\<close>

lemma trim_decompose:
  "\<exists>pre post. response = pre @ trim response @ post \<and>
     list_all js_whitespace pre \<and> list_all js_whitespace post"
proof (intro exI conjI)
  let ?ys = "dropWhile js_whitespace response"
  have "rev (dropWhile js_whitespace (rev ?ys)) @ rev (takeWhile js_whitespace (rev ?ys)) =
        rev (takeWhile js_whitespace (rev ?ys) @ dropWhile js_whitespace (rev ?ys))"
    by (simp only: rev_append)
  also have "\<dots> = ?ys" by simp
  finally have ys: "?ys = trim response @ rev (takeWhile js_whitespace (rev ?ys))"
    by (simp only: trim_def)
  have "response = takeWhile js_whitespace response @ ?ys" by simp
  with ys show "response = takeWhile js_whitespace response @ trim response @
                  rev (takeWhile js_whitespace (rev ?ys))"
    by simp
  show "list_all js_whitespace (takeWhile js_whitespace response)"
    by (auto simp: list_all_iff dest: set_takeWhileD)
  show "list_all js_whitespace (rev (takeWhile js_whitespace (rev ?ys)))"
    by (auto simp: list_all_iff dest: set_takeWhileD)
qed

lemma trim_ends:
  assumes "trim response \<noteq> []"
  shows "\<not> js_whitespace (hd (trim response))" and "\<not> js_whitespace (last (trim response))"
proof -
  let ?ys = "dropWhile js_whitespace response"
  let ?zs = "dropWhile js_whitespace (rev ?ys)"
  have zs: "?zs \<noteq> []" using assms by (simp add: trim_def)
  then have "\<not> js_whitespace (hd ?zs)" by (rule hd_dropWhile)
  then show "\<not> js_whitespace (last (trim response))"
    using zs by (simp add: trim_def last_rev)
  have ys: "?ys \<noteq> []"
  proof
    assume "?ys = []"
    then have "?zs = []" by (simp only: rev.simps dropWhile.simps)
    with zs show False by simp
  qed
  have "rev ?ys = takeWhile js_whitespace (rev ?ys) @ ?zs" by simp
  then have "last (rev ?ys) = last ?zs" using zs by (metis last_appendR)
  then have "hd ?ys = last ?zs" using ys by (simp add: last_rev)
  moreover have "\<not> js_whitespace (hd ?ys)" using ys by (rule hd_dropWhile)
  ultimately show "\<not> js_whitespace (hd (trim response))"
    using zs by (simp add: trim_def hd_rev)
qed

subsection \<open>Facts in the prompt\<close>

lemma memories_lines_end:
  "\<exists>init. memories_header @ concat (map render_memory pre) = init @ nl"
proof (cases pre rule: rev_cases)
  case Nil
  then show ?thesis by (simp add: memories_header_def)
next
  case (snoc pre' x)
  have "memories_header @ concat (map render_memory pre) =
          (memories_header @ concat (map render_memory pre') @
           ''- '' @ m_key x @ '': '' @ m_value x) @ nl"
    by (simp add: snoc render_memory_def)
  then show ?thesis by blast
qed

lemma memory_line_in_section:
  assumes "stored \<in> set mems"
  shows "sublist (nl @ render_memory stored) (memories_header @ concat (map render_memory mems))"
proof -
  obtain pre post where mems: "mems = pre @ stored # post"
    using assms by (auto dest: split_list)
  obtain init where init: "memories_header @ concat (map render_memory pre) = init @ nl"
    using memories_lines_end by blast
  have "memories_header @ concat (map render_memory mems) =
          (memories_header @ concat (map render_memory pre)) @ render_memory stored @
          concat (map render_memory post)"
    by (simp add: mems)
  also have "\<dots> = init @ (nl @ render_memory stored) @ concat (map render_memory post)"
    by (simp only: init append_assoc)
  finally show ?thesis
    by (simp only: sublist_appendI)
qed

lemma memory_line_in_context:
  assumes "stored \<in> set mems"
  shows "sublist (nl @ render_memory stored) (buildMemoryContext userId convs mems)"
proof -
  from memory_line_in_section [OF assms] obtain ps ss
    where "memories_header @ concat (map render_memory mems) = ps @ (nl @ render_memory stored) @ ss"
    by (auto simp: sublist_def)
  moreover have "mems \<noteq> []" using assms by auto
  ultimately have "\<exists>ps'. buildMemoryContext userId convs mems = ps' @ (nl @ render_memory stored) @ ss"
    by (simp add: buildMemoryContext_sections)
  then show ?thesis by (auto simp: sublist_def)
qed

lemma memory_line_in_prompt:
  assumes "stored \<in> set mems"
  shows "sublist (nl @ render_memory stored)
           (fullPrompt_of (buildMemoryContext userId convs mems) message)"
proof -
  from memory_line_in_context [OF assms, of userId convs] obtain ps ss
    where c: "buildMemoryContext userId convs mems = ps @ (nl @ render_memory stored) @ ss"
    by (auto simp: sublist_def)
  have "fullPrompt_of (buildMemoryContext userId convs mems) message =
          (systemPrompt @ nl @ nl @ ps) @ (nl @ render_memory stored) @
          (ss @ nl @ nl @ ''User: '' @ message @ nl @ ''Hue:'')"
    by (simp add: fullPrompt_of_def c)
  then show ?thesis by (simp only: sublist_appendI)
qed

text \<open>Lines of a text: a stretch between two line breaks that holds none is a line.\<close>

lemma split_nl_not_Nil: "split_nl s \<noteq> []"
  by (induction s) (auto split: list.splits)

lemma split_nl_append_newline:
  "split_nl (a @ CHR 0x0A # b) = split_nl a @ split_nl b"
proof (induction a)
  case Nil
  show ?case by simp
next
  case (Cons c a)
  show ?case
  proof (cases "c = CHR 0x0A")
    case True
    then show ?thesis using Cons.IH by simp
  next
    case False
    obtain p ps where s: "split_nl a = p # ps"
      using split_nl_not_Nil [of a] by (cases "split_nl a") auto
    show ?thesis using False Cons.IH by (simp add: s)
  qed
qed

lemma split_nl_single: "CHR 0x0A \<notin> set x \<Longrightarrow> split_nl x = [x]"
  by (induction x) auto

lemma line_of_sublist:
  assumes "sublist (nl @ x @ nl) s" and "CHR 0x0A \<notin> set x"
  shows "x \<in> set (split_nl s)"
proof -
  from assms(1) obtain ps ss where "s = ps @ (nl @ x @ nl) @ ss"
    by (auto simp: sublist_def)
  then have s: "s = ps @ CHR 0x0A # (x @ CHR 0x0A # ss)" by simp
  have "split_nl s = split_nl ps @ split_nl x @ split_nl ss"
    unfolding s by (simp only: split_nl_append_newline)
  then show ?thesis using split_nl_single [OF assms(2)] by simp
qed

lemma recalled_fact:
  assumes "answers (db w) (SelectMemories userId)" and "stored \<in> set (memories (db w))"
    and "m_user_id stored = userId"
  shows "stored \<in> set (fst (recallAllMemories userId w))"
  using assms by (simp add: recallAllMemories_fst)

subsection \<open>Storing memories\<close>

lemma storeMemory_existing_key:
  assumes "well_formed (db w)" and "answers (db w) (UpsertMemory userId key val)"
    and "existing \<in> set (memories (db w))" and "same_user_key userId key existing"
  shows "storeMemory userId key val w = (None, called (UpsertMemory userId key val) w)"
proof -
  have "list_ex (same_user_key userId key) (memories (db w))"
    using assms(3,4) by (auto simp: list_ex_iff)
  then show ?thesis
    using upsert_primary_key [OF assms(1,2), of "clock w" "clock w"]
    by (simp add: storeMemory_def Let_def called_def)
qed

lemma storeMemory_new_key:
  assumes "well_formed (db w)" and "answers (db w) (UpsertMemory userId key val)"
    and "\<not> list_ex (same_user_key userId key) (memories (db w))"
  shows "memories (db (snd (storeMemory userId key val w))) =
           memories (db w) @
           [\<lparr>m_id = next_id (db w), m_user_id = userId, m_key = key, m_value = val,
             m_created_at = clock w, m_updated_at = clock w\<rparr>]"
  using upsert_primary_key [OF assms(1,2), of "clock w" "clock w"] assms(3)
  by (simp add: storeMemory_def Let_def)

lemma storeMemory_db:
  "db (snd (storeMemory userId key val w)) =
     snd (upsert_memory PrimaryKey userId key val (clock w) (clock w) (db w))"
  by (simp add: storeMemory_def Let_def split: prod.splits sum.splits)

lemma storeMemory_well_formed:
  assumes "well_formed (db w)"
  shows "well_formed (db (snd (storeMemory userId key val w)))"
  using upsert_memory_well_formed [OF assms] by (simp add: storeMemory_db)

lemma storeMemory_keeps_rows:
  assumes "well_formed (db w)"
  shows "prefix (memories (db w)) (memories (db (snd (storeMemory userId key val w))))"
proof (cases "answers (db w) (UpsertMemory userId key val)")
  case False
  then show ?thesis by (simp add: storeMemory_db upsert_memory_def)
next
  case True
  show ?thesis
    using upsert_primary_key [OF assms True, of "clock w" "clock w"]
    by (simp add: storeMemory_db)
qed

lemma store_all_well_formed:
  assumes "well_formed (db w)"
  shows "well_formed (db (store_all ops w))"
  using assms
proof (induction ops arbitrary: w)
  case Nil
  then show ?case by simp
next
  case (Cons op ops)
  obtain now userId key val where op: "op = (now, userId, key, val)" by (cases op)
  have "well_formed (db (w\<lparr>clock := now\<rparr>))" using Cons.prems by simp
  then have "well_formed (db (snd (storeMemory userId key val (w\<lparr>clock := now\<rparr>))))"
    by (rule storeMemory_well_formed)
  then show ?case by (simp add: op Cons.IH)
qed

lemma store_all_keeps_rows:
  assumes "well_formed (db w)"
  shows "prefix (memories (db w)) (memories (db (store_all ops w)))"
  using assms
proof (induction ops arbitrary: w)
  case Nil
  then show ?case by simp
next
  case (Cons op ops)
  obtain now userId key val where op: "op = (now, userId, key, val)" by (cases op)
  let ?w = "snd (storeMemory userId key val (w\<lparr>clock := now\<rparr>))"
  have wf: "well_formed (db (w\<lparr>clock := now\<rparr>))" using Cons.prems by simp
  have "prefix (memories (db w)) (memories (db ?w))"
    using storeMemory_keeps_rows [OF wf, of userId key val] by simp
  moreover have "prefix (memories (db ?w)) (memories (db (store_all ops ?w)))"
    using storeMemory_well_formed [OF wf] by (rule Cons.IH)
  ultimately show ?case by (simp add: op)
qed

lemma distinct_key_filter:
  assumes "distinct (map f xs)"
  shows "length (filter (\<lambda>x. f x = y) xs) \<le> 1"
  using assms by (induction xs) (auto simp: filter_empty_conv image_iff)

lemma store_all_one_fact_per_key:
  assumes "well_formed (db w)"
  shows "length (filter (same_user_key userId key) (memories (db (store_all ops w)))) \<le> 1"
proof -
  have "distinct (map (\<lambda>m. (m_user_id m, m_key m)) (memories (db (store_all ops w))))"
    using store_all_well_formed [OF assms, of ops] by (simp add: well_formed_def)
  from distinct_key_filter [OF this, of "(userId, key)"]
  show ?thesis by (simp add: same_user_key_def [abs_def])
qed

subsection \<open>The example worlds\<close>

lemma example_ready:
  "\<not> falsy (body_message (example_body s))"
  "\<not> falsy (body_userId (example_body s))"
  "isRunning (fst (checkOllamaStatus (example_world models_with_hue b up)))"
  "modelAvailable (fst (checkOllamaStatus (example_world models_with_hue b up)))"
  by code_simp+

lemma example_completed_stream:
  "fst (ollamaStream p (example_world listing completed_stream up)) = (['' Hel'', ''lo'', '' ''], Returned)"
  by code_simp

lemma example_broken_stream:
  "fst (ollamaStream p (example_world listing broken_stream up)) = ([''Hel''], Threw ''socket hang up'')"
  by code_simp

lemma example_generate:
  "fst (ollamaRequest p (example_world listing b up)) = Inr (''  Hello there! '' @ nl)"
  by code_simp

lemma example_trim: "trim (''  Hello there! '' @ nl) = ''Hello there!''"
  by code_simp


text \<open>A persistence failure: the stream completes, the reply is unchanged, no record is added.\<close>

lemma example_insert_rejected:
  "fst (post_chat (example_body True) (example_world models_with_hue completed_stream inserts_fail)) =
     ChunkedText ['' Hel'', ''lo'', '' ''] \<and>
   status_code (fst (post_chat (example_body True)
     (example_world models_with_hue completed_stream inserts_fail))) = 200 \<and>
   conversations (db (snd (post_chat (example_body True)
     (example_world models_with_hue completed_stream inserts_fail)))) = []"
  by code_simp

lemma fact_world_ready:
  "isRunning (fst (checkOllamaStatus fact_world))"
  "modelAvailable (fst (checkOllamaStatus fact_world))"
  "answers (db fact_world) c"
  "memories (db fact_world) =
     [\<lparr>m_id = 0, m_user_id = ''u1'', m_key = ''color'', m_value = ''blue'',
       m_created_at = 100, m_updated_at = 100\<rparr>]"
  "calls fact_world = [UpsertMemory ''u1'' ''color'' ''blue'']"
  by code_simp+

section \<open>Properties\<close>

subsection \<open>C1: the window of the rendered history\<close>

text \<open>
  C1, as the code has it: seven records supplied most recent first (\<open>m7\<close> is the newest).
  The rendered history holds the five oldest, \<open>m5\<close> down to \<open>m1\<close>, newest of them first;
  the two most recent records, \<open>m7\<close> and \<open>m6\<close>, do not appear. The claim expects \<open>m7\<close> to
  \<open>m3\<close>, oldest first.
\<close>

theorem buildMemoryContext_seven_counterexample:
  "buildMemoryContext ''u1'' (map conv_at [7, 6, 5, 4, 3, 2, 1]) [] =
     nl @ nl @ ''Recent conversation history:'' @ nl @
     ''1. User: m5'' @ nl @ ''   Hue: r5'' @ nl @
     ''2. User: m4'' @ nl @ ''   Hue: r4'' @ nl @
     ''3. User: m3'' @ nl @ ''   Hue: r3'' @ nl @
     ''4. User: m2'' @ nl @ ''   Hue: r2'' @ nl @
     ''5. User: m1'' @ nl @ ''   Hue: r1'' @ nl \<and>
   \<not> sublist ''m7'' (buildMemoryContext ''u1'' (map conv_at [7, 6, 5, 4, 3, 2, 1]) []) \<and>
   \<not> sublist ''m6'' (buildMemoryContext ''u1'' (map conv_at [7, 6, 5, 4, 3, 2, 1]) [])"
  by code_simp

text \<open>
  C1, amended: the rendered history section holds the last five entries of the supplied
  sequence (all of them when fewer than five are supplied), in the order supplied, without
  any reversal; each entry is a numbered pair of lines, \<open>n. User: message\<close> and
  \<open>Hue: response\<close> indented by three spaces. No section is rendered for an empty sequence,
  and the section opens the context block whatever facts follow it.
\<close>

theorem buildMemoryContext_history:
  "\<exists>window. suffix window convs \<and> length window = min 5 (length convs) \<and>
     buildMemoryContext userId convs [] =
       (if convs = [] then []
        else nl @ nl @ ''Recent conversation history:'' @ nl @
             concat (map (\<lambda>(index, conv).
                            show_nat (index + 1) @ ''. User: '' @ c_message conv @ nl @
                            ''   Hue: '' @ c_response conv @ nl)
                       (enumerate 0 window))) \<and>
     prefix (buildMemoryContext userId convs []) (buildMemoryContext userId convs mems)"
proof (intro exI conjI)
  show "prefix (buildMemoryContext userId convs []) (buildMemoryContext userId convs mems)"
    by (simp add: buildMemoryContext_split [of userId convs mems])
  show "suffix (slice_from_end 5 convs) convs" by (rule slice_from_end_suffix)
  show "length (slice_from_end 5 convs) = min 5 (length convs)" by (rule length_slice_from_end)
  show "buildMemoryContext userId convs [] =
       (if convs = [] then []
        else nl @ nl @ ''Recent conversation history:'' @ nl @
             concat (map (\<lambda>(index, conv).
                            show_nat (index + 1) @ ''. User: '' @ c_message conv @ nl @
                            ''   Hue: '' @ c_response conv @ nl)
                       (enumerate 0 (slice_from_end 5 convs))))"
    by (simp add: buildMemoryContext_sections history_header_def render_conversation_def [abs_def])
qed


subsection \<open>C2: one append per completed exchange\<close>

text \<open>
  C2: for a chat exchange that completes (the stream returns, or the non-streaming request
  answers), the handler issues exactly one conversation insert, after the dispatch and as
  its last call; the text it carries is the concatenation of the chunks written to the
  caller (streaming) or the trimmed response (non-streaming). The store appends exactly
  that one record, so the emitted chunks concatenate to the persisted response text and
  one record is appended per completed exchange. A persistence failure is the case set
  apart: the insert is still issued once, the reply is unchanged and no record is added.
\<close>

theorem chat_completed_appends_once:
  assumes "\<not> falsy (body_message body)" and "\<not> falsy (body_userId body)"
    and "isRunning (fst (checkOllamaStatus w))"
    and "modelAvailable (fst (checkOllamaStatus w))"
  shows
    "(body_stream body \<longrightarrow>
      fst (ollamaStream (assembled_prompt body w) w) = (chunks, Returned) \<longrightarrow>
        fst (post_chat body w) = ChunkedText chunks \<and>
        calls (snd (post_chat body w)) =
          calls w @ [GetTags, SelectConversations (text_of (body_userId body)) 5,
                     SelectMemories (text_of (body_userId body)),
                     PostGenerate (assembled_prompt body w) True,
                     InsertConversation (text_of (body_userId body))
                       (text_of (body_message body)) (concat chunks)] \<and>
        conversations (db (snd (post_chat body w))) =
          (if answers (db w)
                    (InsertConversation (text_of (body_userId body))
                         (text_of (body_message body)) (concat chunks))
           then conversations (db w) @
                [\<lparr>c_id = next_id (db w), c_user_id = text_of (body_userId body),
                  c_message = text_of (body_message body), c_response = concat chunks,
                  c_created_at = clock w, c_metadata = []\<rparr>]
           else conversations (db w))) \<and>
     (\<not> body_stream body \<longrightarrow>
      fst (ollamaRequest (assembled_prompt body w) w) = Inr response \<longrightarrow>
        calls (snd (post_chat body w)) =
          calls w @ [GetTags, SelectConversations (text_of (body_userId body)) 5,
                     SelectMemories (text_of (body_userId body)),
                     PostGenerate (assembled_prompt body w) False,
                     InsertConversation (text_of (body_userId body))
                       (text_of (body_message body)) (trim response)] \<and>
        conversations (db (snd (post_chat body w))) =
          (if answers (db w)
                    (InsertConversation (text_of (body_userId body))
                         (text_of (body_message body)) (trim response))
           then conversations (db w) @
                [\<lparr>c_id = next_id (db w), c_user_id = text_of (body_userId body),
                  c_message = text_of (body_message body), c_response = trim response,
                  c_created_at = clock w, c_metadata = []\<rparr>]
           else conversations (db w)))"
  using post_chat_stream_returned(1-3) [OF assms, of chunks]
    post_chat_regular_ok(2,3) [OF assms, of response]
  by blast

text \<open>
  C2 at two requests in the example world, one streaming and one not: each leaves exactly
  one record, holding the concatenated chunks and the trimmed response.
\<close>

theorem chat_completed_appends_once_witness:
  "fst (post_chat (example_body True) (example_world models_with_hue completed_stream store_up)) =
     ChunkedText ['' Hel'', ''lo'', '' ''] \<and>
   conversations (db (snd (post_chat (example_body True)
       (example_world models_with_hue completed_stream store_up)))) =
     [\<lparr>c_id = 0, c_user_id = ''u1'', c_message = ''what is my favorite color'',
       c_response = '' Hello '', c_created_at = 100, c_metadata = []\<rparr>] \<and>
   conversations (db (snd (post_chat (example_body False)
       (example_world models_with_hue completed_stream store_up)))) =
     [\<lparr>c_id = 0, c_user_id = ''u1'', c_message = ''what is my favorite color'',
       c_response = ''Hello there!'', c_created_at = 100, c_metadata = []\<rparr>]"
proof -
  have s: "body_stream (example_body True)" and n: "\<not> body_stream (example_body False)"
    by (simp_all add: example_body_def)
  have f: "text_of (body_userId (example_body b)) = ''u1''"
    "text_of (body_message (example_body b)) = ''what is my favorite color''" for b
    by (simp_all add: example_body_def text_of_def)
  have d: "answers (db (example_world l b store_up)) c" "conversations (db (example_world l b store_up)) = []"
    "next_id (db (example_world l b store_up)) = 0" "clock (example_world l b store_up) = 100" for l b c
    by (simp_all add: example_world_def empty_store_def store_up_def)
  from chat_completed_appends_once [OF example_ready, of True completed_stream store_up
      "['' Hel'', ''lo'', '' '']"]
    chat_completed_appends_once [OF example_ready, of False completed_stream store_up _
      "''  Hello there! '' @ nl"]
  show ?thesis
    using s n example_completed_stream example_generate
    by (simp only: f d example_trim) simp
qed


subsection \<open>C3: a stream that fails\<close>

text \<open>
  C3: when the backend stream raises before completing, the chunks relayed so far are
  followed by one final chunk, the fallback notice \<open>modelError\<close> after two line breaks,
  and the stream is ended with status 200. The store is left as it was and no conversation
  insert is issued: the dispatch is the handler's last call.
\<close>

theorem chat_stream_failure:
  assumes "\<not> falsy (body_message body)" and "\<not> falsy (body_userId body)"
    and "isRunning (fst (checkOllamaStatus w))"
    and "modelAvailable (fst (checkOllamaStatus w))"
    and "body_stream body"
    and "fst (ollamaStream (assembled_prompt body w) w) = (chunks, Threw error)"
  shows "fst (post_chat body w) =
           ChunkedText (chunks @ [nl @ nl @ ''I'' @ [CHR 0x27] @
             ''m experiencing some technical difficulties. Please try again in a moment.'']) \<and>
         status_code (fst (post_chat body w)) = 200 \<and>
         db (snd (post_chat body w)) = db w \<and>
         calls (snd (post_chat body w)) =
           calls w @ [GetTags, SelectConversations (text_of (body_userId body)) 5,
                      SelectMemories (text_of (body_userId body)),
                      PostGenerate (assembled_prompt body w) True]"
  using post_chat_stream_threw [OF assms]
  by (simp add: modelError_def)

text \<open>
  C3 at a streaming request whose body breaks off after one chunk: that chunk and the
  notice are written, and the store is still empty.
\<close>

theorem chat_stream_failure_witness:
  "fst (post_chat (example_body True) (example_world models_with_hue broken_stream store_up)) =
     ChunkedText [''Hel'', nl @ nl @ ''I'' @ [CHR 0x27] @
       ''m experiencing some technical difficulties. Please try again in a moment.''] \<and>
   db (snd (post_chat (example_body True) (example_world models_with_hue broken_stream store_up))) =
     empty_store"
proof -
  have s: "body_stream (example_body True)"
    by (simp add: example_body_def)
  have d: "db (example_world models_with_hue broken_stream store_up) = empty_store"
    by (simp add: example_world_def empty_store_def)
  from chat_stream_failure [OF example_ready s example_broken_stream]
  show ?thesis by (simp add: d)
qed


subsection \<open>C4: validation comes first\<close>

text \<open>
  C4: a \<open>/chat\<close> request whose message or user identifier is missing or empty is
  answered with status 400, and the world is untouched: no call reaches the inference
  backend or the store, and no conversation record is created.
\<close>

theorem chat_invalid_request:
  assumes "falsy (body_message body) \<or> falsy (body_userId body)"
  shows "post_chat body w =
           (ErrorJson 400 ''Missing required fields: message and userId'' None, w) \<and>
         status_code (fst (post_chat body w)) = 400 \<and>
         calls (snd (post_chat body w)) = calls w \<and>
         conversations (db (snd (post_chat body w))) = conversations (db w)"
  using assms by (simp add: post_chat_def)

text \<open>
  C4 at a request without a message and at a request with an empty user identifier.
\<close>

theorem chat_invalid_request_witness:
  "post_chat \<lparr>body_message = None, body_userId = Some ''u1'', body_stream = False\<rparr>
       (example_world models_with_hue completed_stream store_up) =
     (ErrorJson 400 ''Missing required fields: message and userId'' None,
      example_world models_with_hue completed_stream store_up) \<and>
   post_chat \<lparr>body_message = Some ''hi'', body_userId = Some [], body_stream = True\<rparr>
       (example_world models_with_hue completed_stream store_up) =
     (ErrorJson 400 ''Missing required fields: message and userId'' None,
      example_world models_with_hue completed_stream store_up)"
proof -
  have a: "falsy (body_message \<lparr>body_message = None, body_userId = Some ''u1'', body_stream = False\<rparr>) \<or>
           falsy (body_userId \<lparr>body_message = None, body_userId = Some ''u1'', body_stream = False\<rparr>)"
    by (simp add: falsy_def)
  have b: "falsy (body_message \<lparr>body_message = Some ''hi'', body_userId = Some [], body_stream = True\<rparr>) \<or>
           falsy (body_userId \<lparr>body_message = Some ''hi'', body_userId = Some [], body_stream = True\<rparr>)"
    by (simp add: falsy_def)
  from chat_invalid_request [OF a] chat_invalid_request [OF b]
  show ?thesis by blast
qed


subsection \<open>C5: the backend check comes before memory\<close>

text \<open>
  C5: for a validated \<open>/chat\<close> request, a backend that cannot be reached (the request
  fails, or answers with a status that is not a success) gives status 503 with the error
  \<open>Ollama is not running\<close>; a backend that answers but does not list the configured model
  gives status 503 with the different error \<open>Model not available\<close>. In each case the only
  call made is the status query: the store is neither read nor written.
\<close>

theorem chat_backend_unavailable:
  assumes "\<not> falsy (body_message body)" and "\<not> falsy (body_userId body)"
  shows
    "(tags (ollama w) = TagsFailed error \<longrightarrow>
        post_chat body w =
          (ErrorJson 503 ''Ollama is not running''
             (Some (''Failed to connect to Ollama: '' @ error)), called GetTags w)) \<and>
     (tags (ollama w) = TagsNotOk status statusText \<longrightarrow>
        post_chat body w =
          (ErrorJson 503 ''Ollama is not running''
             (Some (''Ollama is not responding: '' @ show_nat status @ '' '' @ statusText)),
           called GetTags w)) \<and>
     (tags (ollama w) = TagsOk models \<longrightarrow> OLLAMA_MODEL w \<notin> set models \<longrightarrow>
        post_chat body w =
          (ErrorJson 503 ''Model not available''
             (Some (''Model '' @ [CHR 0x27] @ OLLAMA_MODEL w @ [CHR 0x27] @
                    '' not found. Available models: '' @ join_with '', '' models)),
           called GetTags w)) \<and>
     db (called GetTags w) = db w \<and> calls (called GetTags w) = calls w @ [GetTags]"
proof (intro conjI impI)
  assume t: "tags (ollama w) = TagsFailed error"
  then have "\<not> isRunning (fst (checkOllamaStatus w))" by (simp add: checkOllamaStatus_fst)
  from post_chat_not_running [OF assms this] t
  show "post_chat body w =
          (ErrorJson 503 ''Ollama is not running''
             (Some (''Failed to connect to Ollama: '' @ error)), called GetTags w)"
    by (simp add: checkOllamaStatus_fst)
next
  assume t: "tags (ollama w) = TagsNotOk status statusText"
  then have "\<not> isRunning (fst (checkOllamaStatus w))" by (simp add: checkOllamaStatus_fst)
  from post_chat_not_running [OF assms this] t
  show "post_chat body w =
          (ErrorJson 503 ''Ollama is not running''
             (Some (''Ollama is not responding: '' @ show_nat status @ '' '' @ statusText)),
           called GetTags w)"
    by (simp add: checkOllamaStatus_fst)
next
  assume t: "tags (ollama w) = TagsOk models" and n: "OLLAMA_MODEL w \<notin> set models"
  then have r: "isRunning (fst (checkOllamaStatus w))"
    and m: "\<not> modelAvailable (fst (checkOllamaStatus w))"
    by (simp_all add: checkOllamaStatus_fst)
  from post_chat_model_missing [OF assms r m] t n
  show "post_chat body w =
          (ErrorJson 503 ''Model not available''
             (Some (''Model '' @ [CHR 0x27] @ OLLAMA_MODEL w @ [CHR 0x27] @
                    '' not found. Available models: '' @ join_with '', '' models)),
           called GetTags w)"
    by (simp add: checkOllamaStatus_fst)
qed simp_all

text \<open>
  C5 at a backend that refuses the connection, at one that answers 502, and at one that
  lists other models only.
\<close>

theorem chat_backend_unavailable_witness:
  "fst (post_chat (example_body False)
          (example_world (TagsFailed ''ECONNREFUSED'') completed_stream store_up)) =
     ErrorJson 503 ''Ollama is not running'' (Some ''Failed to connect to Ollama: ECONNREFUSED'') \<and>
   fst (post_chat (example_body False)
          (example_world (TagsNotOk 502 ''Bad Gateway'') completed_stream store_up)) =
     ErrorJson 503 ''Ollama is not running'' (Some ''Ollama is not responding: 502 Bad Gateway'') \<and>
   fst (post_chat (example_body False)
          (example_world (TagsOk [''llama3'', ''mistral'']) completed_stream store_up)) =
     ErrorJson 503 ''Model not available''
       (Some (''Model '' @ [CHR 0x27] @ ''hue'' @ [CHR 0x27] @
              '' not found. Available models: llama3, mistral'')) \<and>
   calls (snd (post_chat (example_body False)
          (example_world (TagsOk [''llama3'', ''mistral'']) completed_stream store_up))) = [GetTags] \<and>
   db (snd (post_chat (example_body False)
          (example_world (TagsOk [''llama3'', ''mistral'']) completed_stream store_up))) = empty_store"
proof -
  have t: "tags (ollama (example_world l b up)) = l" for l b up
    by (simp add: example_world_def example_backend_def)
  have m: "OLLAMA_MODEL (example_world l b up) = ''hue''" for l b up
    by (simp add: example_world_def OLLAMA_MODEL_def)
  have n: "OLLAMA_MODEL (example_world (TagsOk [''llama3'', ''mistral'']) completed_stream store_up)
             \<notin> set [''llama3'', ''mistral'']"
    by (simp add: m)
  have s: "show_nat 502 = ''502''" by code_simp
  have d: "db (example_world l b store_up) = empty_store" "calls (example_world l b store_up) = []" for l b
    by (simp_all add: example_world_def empty_store_def)
  from chat_backend_unavailable [where body = "example_body False"
      and w = "example_world (TagsFailed ''ECONNREFUSED'') completed_stream store_up"
      and error = "''ECONNREFUSED''", OF example_ready(1,2)]
    chat_backend_unavailable [where body = "example_body False"
      and w = "example_world (TagsNotOk 502 ''Bad Gateway'') completed_stream store_up"
      and status = 502 and statusText = "''Bad Gateway''", OF example_ready(1,2)]
    chat_backend_unavailable [where body = "example_body False"
      and w = "example_world (TagsOk [''llama3'', ''mistral'']) completed_stream store_up"
      and models = "[''llama3'', ''mistral'']", OF example_ready(1,2)]
    n
  show ?thesis
    by (simp add: t m s d)
qed


subsection \<open>C6: storing under a key that is already present\<close>

text \<open>
  C6, the code at an input where it departs from the claim: user \<open>u1\<close> has the fact
  \<open>color = blue\<close> and stores \<open>color = red\<close> at a later time. The upsert names no conflict
  target, so the store resolves conflicts on the primary key; the new row gets a fresh
  \<open>id\<close>, is therefore inserted rather than merged, and violates \<open>UNIQUE(user_id, key)\<close>.
  \<open>storeMemory\<close> returns \<open>null\<close>, the endpoint answers \<open>{memory: null}\<close>, and the fact keeps
  the value \<open>blue\<close> and its old timestamp. The same upsert with the conflict target
  \<open>user_id, key\<close> replaces the value and the timestamp, as the claim describes. The part
  of the claim that holds, at most one fact per user and key after any sequence of
  stores, is \<open>store_all_one_fact_per_key\<close>; that a stored fact is never changed by a later
  store is \<open>store_all_keeps_rows\<close>.
\<close>

theorem storeMemory_same_key_twice:
  "fst (storeMemory ''u1'' ''color'' ''red'' (fact_world\<lparr>clock := 200\<rparr>)) = None \<and>
   memories (db (snd (storeMemory ''u1'' ''color'' ''red'' (fact_world\<lparr>clock := 200\<rparr>)))) =
     [\<lparr>m_id = 0, m_user_id = ''u1'', m_key = ''color'', m_value = ''blue'',
       m_created_at = 100, m_updated_at = 100\<rparr>] \<and>
   fst (post_memories ''u1'' (Some ''color'') (Some ''red'') (fact_world\<lparr>clock := 200\<rparr>)) =
     MemoryJson None \<and>
   fst (upsert_memory UserIdAndKey ''u1'' ''color'' ''red'' 200 200 (db fact_world)) =
     Inr \<lparr>m_id = 0, m_user_id = ''u1'', m_key = ''color'', m_value = ''red'',
          m_created_at = 100, m_updated_at = 200\<rparr>"
  by code_simp


subsection \<open>C7: reading memories while the store is down\<close>

text \<open>
  C7, as the code has it: user \<open>u1\<close> has a stored fact and the store stops answering.
  \<open>GET /memories/u1\<close> answers with status 200 and an empty list, not with status 500.
\<close>

theorem get_memories_outage_counterexample:
  "memories (db (outage fact_world)) =
     [\<lparr>m_id = 0, m_user_id = ''u1'', m_key = ''color'', m_value = ''blue'',
       m_created_at = 100, m_updated_at = 100\<rparr>] \<and>
   \<not> answers (db (outage fact_world)) (SelectMemories ''u1'') \<and>
   fst (get_memories ''u1'' (outage fact_world)) = MemoriesJson [] \<and>
   status_code (fst (get_memories ''u1'' (outage fact_world))) = 200 \<and>
   status_code (fst (get_memories ''u1'' (outage fact_world))) \<noteq> 500"
  by code_simp

text \<open>
  C7, amended: \<open>GET /memories/:userId\<close> always answers with status 200 and the list
  \<open>recallAllMemories\<close> returns; on a store failure that list is empty, which is the very
  degradation the chat handler's read of the memories undergoes. A store failure is not
  surfaced as status 500.
\<close>

theorem get_memories_degrades:
  "fst (get_memories userId w) = MemoriesJson (fst (recallAllMemories userId w)) \<and>
   status_code (fst (get_memories userId w)) = 200 \<and>
   fst (recallAllMemories userId w) =
     (if answers (db w) (SelectMemories userId)
      then rev (sort_key m_updated_at (filter (\<lambda>m. m_user_id m = userId) (memories (db w))))
      else [])"
  by (simp add: get_memories_def case_prod_beta recallAllMemories_fst)


subsection \<open>C8: chat while the store is down\<close>

text \<open>
  C8: for a \<open>/chat\<close> request that passes validation and the backend check, a read of the
  recent conversations or of the facts that the store fails to answer gives an empty
  list; when both fail the context block is empty. Whatever the store does, the prompt is
  then dispatched to the backend: the chat does not abort on the store failure. A
  streaming request is answered with status 200, and a non-streaming request whose backend
  call answers returns the trimmed response.
\<close>

theorem chat_store_outage_degrades:
  assumes "\<not> falsy (body_message body)" and "\<not> falsy (body_userId body)"
    and "isRunning (fst (checkOllamaStatus w))"
    and "modelAvailable (fst (checkOllamaStatus w))"
  shows "(\<not> answers (db w) (SelectConversations (text_of (body_userId body)) 5) \<longrightarrow>
            fst (recallRecentConversations (text_of (body_userId body)) 5 w) = []) \<and>
         (\<not> answers (db w) (SelectMemories (text_of (body_userId body))) \<longrightarrow>
            fst (recallAllMemories (text_of (body_userId body)) w) = []) \<and>
         (\<not> answers (db w) (SelectConversations (text_of (body_userId body)) 5) \<longrightarrow>
          \<not> answers (db w) (SelectMemories (text_of (body_userId body))) \<longrightarrow>
            buildMemoryContext (text_of (body_userId body))
              (fst (recallRecentConversations (text_of (body_userId body)) 5 w))
              (fst (recallAllMemories (text_of (body_userId body)) w)) = [] \<and>
            assembled_prompt body w = fullPrompt_of [] (text_of (body_message body))) \<and>
         (\<exists>later. calls (snd (post_chat body w)) =
            calls w @ [GetTags, SelectConversations (text_of (body_userId body)) 5,
                       SelectMemories (text_of (body_userId body)),
                       PostGenerate (assembled_prompt body w) (body_stream body)] @ later) \<and>
         (body_stream body \<longrightarrow> status_code (fst (post_chat body w)) = 200) \<and>
         (\<not> body_stream body \<longrightarrow>
          fst (ollamaRequest (assembled_prompt body w) w) = Inr response \<longrightarrow>
            fst (post_chat body w) = ChatJson (trim response) ''generated-id'' (clock w))"
proof (intro conjI impI)
  assume c: "\<not> answers (db w) (SelectConversations (text_of (body_userId body)) 5)"
    and m: "\<not> answers (db w) (SelectMemories (text_of (body_userId body)))"
  then show "buildMemoryContext (text_of (body_userId body))
              (fst (recallRecentConversations (text_of (body_userId body)) 5 w))
              (fst (recallAllMemories (text_of (body_userId body)) w)) = []"
    by (simp add: recallRecentConversations_fst recallAllMemories_fst buildMemoryContext_empty)
  from c m show "assembled_prompt body w = fullPrompt_of [] (text_of (body_message body))"
    by (simp add: assembled_prompt_def Let_def recallRecentConversations_fst
        recallAllMemories_fst buildMemoryContext_empty)
next
  show "\<exists>later. calls (snd (post_chat body w)) =
            calls w @ [GetTags, SelectConversations (text_of (body_userId body)) 5,
                       SelectMemories (text_of (body_userId body)),
                       PostGenerate (assembled_prompt body w) (body_stream body)] @ later"
    using assms by (rule post_chat_dispatches)
next
  assume "body_stream body"
  with assms show "status_code (fst (post_chat body w)) = 200"
    by (rule post_chat_stream_status)
next
  assume "\<not> body_stream body"
    and "fst (ollamaRequest (assembled_prompt body w) w) = Inr response"
  with assms show "fst (post_chat body w) = ChatJson (trim response) ''generated-id'' (clock w)"
    by (rule post_chat_regular_ok(1))
qed (simp_all add: recallRecentConversations_fst recallAllMemories_fst)

text \<open>
  C8 at a non-streaming and at a streaming request while the store answers nothing.
\<close>

theorem chat_store_outage_degrades_witness:
  "\<not> answers (db (example_world models_with_hue completed_stream store_down))
       (SelectConversations ''u1'' 5) \<and>
   \<not> answers (db (example_world models_with_hue completed_stream store_down))
       (SelectMemories ''u1'') \<and>
   assembled_prompt (example_body False) (example_world models_with_hue completed_stream store_down) =
     fullPrompt_of [] ''what is my favorite color'' \<and>
   fst (post_chat (example_body False) (example_world models_with_hue completed_stream store_down)) =
     ChatJson ''Hello there!'' ''generated-id'' 100 \<and>
   status_code (fst (post_chat (example_body True)
     (example_world models_with_hue completed_stream store_down))) = 200"
proof -
  have d: "\<not> answers (db (example_world l b store_down)) c" for l b c
    by (simp add: example_world_def empty_store_def store_down_def)
  have s: "body_stream (example_body True)" and n: "\<not> body_stream (example_body False)"
    by (simp_all add: example_body_def)
  have f: "text_of (body_userId (example_body b)) = ''u1''"
    "text_of (body_message (example_body b)) = ''what is my favorite color''" for b
    by (simp_all add: example_body_def text_of_def)
  have c: "clock (example_world l b up) = 100" for l b up
    by (simp add: example_world_def)
  from chat_store_outage_degrades [where body = "example_body False"
      and w = "example_world models_with_hue completed_stream store_down"
      and response = "''  Hello there! '' @ nl", OF example_ready]
    chat_store_outage_degrades [where body = "example_body True"
      and w = "example_world models_with_hue completed_stream store_down", OF example_ready]
  show ?thesis
    using s n example_generate by (simp only: c d f example_trim) simp
qed


subsection \<open>C9: facts in the prompt\<close>

text \<open>
  C9, as the code has it: user \<open>u1\<close> has stored the fact \<open>color = blue\<close> and chats. The
  lines of the context block are two empty lines, the header, \<open>- color: blue\<close> and an
  empty last line. Neither the block nor the assembled prompt has the line
  \<open>color: blue\<close>: the fact's line starts with a list marker.
\<close>

theorem chat_prompt_line_counterexample:
  "split_nl (buildMemoryContext ''u1'' [] (memories (db fact_world))) =
     [[], [], ''User preferences and memories:'', ''- color: blue'', []] \<and>
   ''color: blue'' \<notin> set (split_nl (buildMemoryContext ''u1'' [] (memories (db fact_world)))) \<and>
   ''color: blue'' \<notin> set (split_nl (assembled_prompt (example_body False) fact_world)) \<and>
   ''- color: blue'' \<in> set (split_nl (assembled_prompt (example_body False) fact_world))"
  by code_simp

text \<open>
  C9, amended: the Context Builder renders each fact as one line of the form
  \<open>- key: value\<close>, under a header, and renders no facts section when there are no facts;
  the section closes the context block whatever history precedes it. Consequently, for a
  request that passes validation and the backend check while the store answers the read
  of the facts, every stored fact of the requesting user is rendered in the assembled
  prompt between two line breaks, so that \<open>- key: value\<close> is one of the prompt's lines
  when neither key nor value holds a line break; and that prompt is the one dispatched to
  the backend. With the fact \<open>color = blue\<close> stored for \<open>u1\<close>, the prompt of a chat request
  of \<open>u1\<close> has the line \<open>- color: blue\<close>.
\<close>

theorem chat_prompt_lists_facts:
  assumes "\<not> falsy (body_message body)" and "\<not> falsy (body_userId body)"
    and "isRunning (fst (checkOllamaStatus w))"
    and "modelAvailable (fst (checkOllamaStatus w))"
    and "answers (db w) (SelectMemories (text_of (body_userId body)))"
    and "stored \<in> set (memories (db w))"
    and "m_user_id stored = text_of (body_userId body)"
  shows "sublist (nl @ ''- '' @ m_key stored @ '': '' @ m_value stored @ nl) (assembled_prompt body w) \<and>
         (CHR 0x0A \<notin> set (m_key stored) \<longrightarrow> CHR 0x0A \<notin> set (m_value stored) \<longrightarrow>
            ''- '' @ m_key stored @ '': '' @ m_value stored \<in> set (split_nl (assembled_prompt body w))) \<and>
         (\<exists>later. calls (snd (post_chat body w)) =
            calls w @ [GetTags, SelectConversations (text_of (body_userId body)) 5,
                       SelectMemories (text_of (body_userId body)),
                       PostGenerate (assembled_prompt body w) (body_stream body)] @ later) \<and>
         buildMemoryContext userId [] mems =
           (if mems = [] then []
            else nl @ nl @ ''User preferences and memories:'' @ nl @
                 concat (map (\<lambda>memory. ''- '' @ m_key memory @ '': '' @ m_value memory @ nl) mems)) \<and>
         suffix (buildMemoryContext userId [] mems) (buildMemoryContext userId convs mems)"
proof (intro conjI impI)
  show "suffix (buildMemoryContext userId [] mems) (buildMemoryContext userId convs mems)"
    by (simp add: buildMemoryContext_split [of userId convs mems] suffix_def)
  have "stored \<in> set (fst (recallAllMemories (text_of (body_userId body)) w))"
    using assms(5-7) by (rule recalled_fact)
  from memory_line_in_prompt [OF this]
  show line: "sublist (nl @ ''- '' @ m_key stored @ '': '' @ m_value stored @ nl) (assembled_prompt body w)"
    by (simp add: assembled_prompt_def Let_def render_memory_def)
  show "''- '' @ m_key stored @ '': '' @ m_value stored \<in> set (split_nl (assembled_prompt body w))"
    if "CHR 0x0A \<notin> set (m_key stored)" and "CHR 0x0A \<notin> set (m_value stored)"
  proof (rule line_of_sublist)
    show "sublist (nl @ (''- '' @ m_key stored @ '': '' @ m_value stored) @ nl) (assembled_prompt body w)"
      using line by simp
    show "CHR 0x0A \<notin> set (''- '' @ m_key stored @ '': '' @ m_value stored)"
      using that by simp
  qed
  show "\<exists>later. calls (snd (post_chat body w)) =
            calls w @ [GetTags, SelectConversations (text_of (body_userId body)) 5,
                       SelectMemories (text_of (body_userId body)),
                       PostGenerate (assembled_prompt body w) (body_stream body)] @ later"
    using assms(1-4) by (rule post_chat_dispatches)
  show "buildMemoryContext userId [] mems =
           (if mems = [] then []
            else nl @ nl @ ''User preferences and memories:'' @ nl @
                 concat (map (\<lambda>memory. ''- '' @ m_key memory @ '': '' @ m_value memory @ nl) mems))"
    by (simp add: buildMemoryContext_sections memories_header_def render_memory_def [abs_def])
qed

text \<open>
  C9 end to end: \<open>u1\<close> stores \<open>color = blue\<close> and then chats.
\<close>

theorem chat_prompt_lists_facts_witness:
  "memories (db fact_world) =
     [\<lparr>m_id = 0, m_user_id = ''u1'', m_key = ''color'', m_value = ''blue'',
       m_created_at = 100, m_updated_at = 100\<rparr>] \<and>
   sublist (nl @ ''- color: blue'' @ nl) (assembled_prompt (example_body False) fact_world) \<and>
   ''- color: blue'' \<in> set (split_nl (assembled_prompt (example_body False) fact_world)) \<and>
   PostGenerate (assembled_prompt (example_body False) fact_world) False
     \<in> set (calls (snd (post_chat (example_body False) fact_world)))"
proof -
  let ?row = "\<lparr>m_id = 0, m_user_id = ''u1'', m_key = ''color'', m_value = ''blue'',
                 m_created_at = 100, m_updated_at = 100\<rparr>"
  have m: "?row \<in> set (memories (db fact_world))"
    by (simp add: fact_world_ready(4))
  have u: "m_user_id ?row = text_of (body_userId (example_body False))"
    by (simp add: example_body_def text_of_def)
  have n: "\<not> body_stream (example_body False)"
    by (simp add: example_body_def)
  note t = chat_prompt_lists_facts [OF example_ready(1,2) fact_world_ready(1,2,3) m u,
      of "''u1''" "[]" "[]"]
  from t have a: "sublist (nl @ ''- color: blue'' @ nl)
                    (assembled_prompt (example_body False) fact_world)"
    by simp
  from t have a2: "''- color: blue'' \<in> set (split_nl (assembled_prompt (example_body False) fact_world))"
    by simp
  from t obtain later where
    "calls (snd (post_chat (example_body False) fact_world)) =
       calls fact_world @
       [GetTags, SelectConversations (text_of (body_userId (example_body False))) 5,
        SelectMemories (text_of (body_userId (example_body False))),
        PostGenerate (assembled_prompt (example_body False) fact_world)
          (body_stream (example_body False))] @ later"
    by blast
  then have b: "PostGenerate (assembled_prompt (example_body False) fact_world) False
                  \<in> set (calls (snd (post_chat (example_body False) fact_world)))"
    using n by simp
  show ?thesis
    using a a2 b by (simp add: fact_world_ready(4))
qed


subsection \<open>C10: the non-streaming response is trimmed, the stream is not\<close>

text \<open>
  C10: for a non-streaming exchange the text returned to the caller and the text handed
  to the conversation insert (and held by the record the store then adds) are both the
  backend's response with the white space at its two ends removed: the response is that
  text between two runs of white space, and the text neither starts nor ends with white
  space. For a streaming exchange the chunks are written to the caller as they are, and
  the text inserted is their concatenation, untrimmed.
\<close>

theorem chat_trims_regular_not_stream:
  assumes "\<not> falsy (body_message body)" and "\<not> falsy (body_userId body)"
    and "isRunning (fst (checkOllamaStatus w))"
    and "modelAvailable (fst (checkOllamaStatus w))"
  shows
    "(\<not> body_stream body \<longrightarrow>
      fst (ollamaRequest (assembled_prompt body w) w) = Inr response \<longrightarrow>
        fst (post_chat body w) = ChatJson (trim response) ''generated-id'' (clock w) \<and>
        last (calls (snd (post_chat body w))) =
          InsertConversation (text_of (body_userId body)) (text_of (body_message body))
            (trim response) \<and>
        (answers (db w) (InsertConversation (text_of (body_userId body))
                           (text_of (body_message body)) (trim response)) \<longrightarrow>
           c_response (last (conversations (db (snd (post_chat body w))))) = trim response) \<and>
        (\<exists>pre post. response = pre @ trim response @ post \<and>
           list_all js_whitespace pre \<and> list_all js_whitespace post) \<and>
        (trim response \<noteq> [] \<longrightarrow>
           \<not> js_whitespace (hd (trim response)) \<and> \<not> js_whitespace (last (trim response)))) \<and>
     (body_stream body \<longrightarrow>
      fst (ollamaStream (assembled_prompt body w) w) = (chunks, Returned) \<longrightarrow>
        fst (post_chat body w) = ChunkedText chunks \<and>
        last (calls (snd (post_chat body w))) =
          InsertConversation (text_of (body_userId body)) (text_of (body_message body))
            (concat chunks) \<and>
        (answers (db w) (InsertConversation (text_of (body_userId body))
                           (text_of (body_message body)) (concat chunks)) \<longrightarrow>
           c_response (last (conversations (db (snd (post_chat body w))))) = concat chunks))"
proof (intro conjI impI)
  assume n: "\<not> body_stream body"
    and r: "fst (ollamaRequest (assembled_prompt body w) w) = Inr response"
  note ok = post_chat_regular_ok [OF assms n r]
  show "fst (post_chat body w) = ChatJson (trim response) ''generated-id'' (clock w)"
    by (rule ok(1))
  show "last (calls (snd (post_chat body w))) =
          InsertConversation (text_of (body_userId body)) (text_of (body_message body))
            (trim response)"
    by (simp add: ok(2))
  show "c_response (last (conversations (db (snd (post_chat body w))))) = trim response"
    if "answers (db w) (InsertConversation (text_of (body_userId body))
                          (text_of (body_message body)) (trim response))"
    using that by (simp add: ok(3))
  show "\<exists>pre post. response = pre @ trim response @ post \<and>
           list_all js_whitespace pre \<and> list_all js_whitespace post"
    by (rule trim_decompose)
  show "\<not> js_whitespace (hd (trim response))" if "trim response \<noteq> []"
    using that by (rule trim_ends(1))
  show "\<not> js_whitespace (last (trim response))" if "trim response \<noteq> []"
    using that by (rule trim_ends(2))
next
  assume s: "body_stream body"
    and g: "fst (ollamaStream (assembled_prompt body w) w) = (chunks, Returned)"
  note ok = post_chat_stream_returned [OF assms s g]
  show "fst (post_chat body w) = ChunkedText chunks"
    by (rule ok(1))
  show "last (calls (snd (post_chat body w))) =
          InsertConversation (text_of (body_userId body)) (text_of (body_message body))
            (concat chunks)"
    by (simp add: ok(2))
  show "c_response (last (conversations (db (snd (post_chat body w))))) = concat chunks"
    if "answers (db w) (InsertConversation (text_of (body_userId body))
                          (text_of (body_message body)) (concat chunks))"
    using that by (simp add: ok(3))
qed

text \<open>
  C10 at a response with white space at both ends, and at a stream whose first chunk
  starts and whose last chunk ends with a space.
\<close>

theorem chat_trims_regular_not_stream_witness:
  "fst (post_chat (example_body False) (example_world models_with_hue completed_stream store_up)) =
     ChatJson ''Hello there!'' ''generated-id'' 100 \<and>
   c_response (last (conversations (db (snd (post_chat (example_body False)
     (example_world models_with_hue completed_stream store_up)))))) = ''Hello there!'' \<and>
   fst (post_chat (example_body True) (example_world models_with_hue completed_stream store_up)) =
     ChunkedText ['' Hel'', ''lo'', '' ''] \<and>
   c_response (last (conversations (db (snd (post_chat (example_body True)
     (example_world models_with_hue completed_stream store_up)))))) = '' Hello ''"
proof -
  have s: "body_stream (example_body True)" and n: "\<not> body_stream (example_body False)"
    by (simp_all add: example_body_def)
  have d: "answers (db (example_world l b store_up)) c" "clock (example_world l b store_up) = 100" for l b c
    by (simp_all add: example_world_def empty_store_def store_up_def)
  from chat_trims_regular_not_stream [OF example_ready, of False completed_stream store_up
      "''  Hello there! '' @ nl"]
    chat_trims_regular_not_stream [OF example_ready, of True completed_stream store_up _
      "['' Hel'', ''lo'', '' '']"]
  show ?thesis
    using s n example_completed_stream example_generate
    by (simp only: d example_trim) simp
qed

end
